theory Spec2Isabelle
  imports Complex_Main "HOL-Library.AList"
begin

section \<open>Python values\<close>

text \<open>
  The forecasting engine is written in Python. Its integers are unbounded and are modelled
  as \<open>int\<close>. Its floating-point numbers are modelled as exact reals (a decimal literal
  such as \<open>0.15\<close> denotes the rational it spells and arithmetic does not round), except in
  the supply planning of the resource service, where the rounding decides an integer result
  and is modelled.
  Dictionaries that are only read are maps; dictionaries that are iterated are association
  lists in insertion order.
\<close>

definition py_int :: "real \<Rightarrow> int" where
  \<comment> \<open>\<open>int(x)\<close> truncates towards zero.\<close>
  "py_int x = (if 0 \<le> x then \<lfloor>x\<rfloor> else \<lceil>x\<rceil>)"

definition round_half_even :: "real \<Rightarrow> int" where
  \<comment> \<open>Nearest integer, a tie going to the even neighbour.\<close>
  "round_half_even x =
     (let f = \<lfloor>x\<rfloor>; d = x - of_int f
      in if d < 1 / 2 then f else if 1 / 2 < d then f + 1 else if even f then f else f + 1)"

definition py_round :: "real \<Rightarrow> nat \<Rightarrow> real" where
  \<comment> \<open>\<open>round(x, n)\<close>.\<close>
  "py_round x n = of_int (round_half_even (x * 10 ^ n)) / 10 ^ n"

definition dict_get :: "('k \<rightharpoonup> 'v) \<Rightarrow> 'k \<Rightarrow> 'v \<Rightarrow> 'v" where
  \<comment> \<open>\<open>d.get(k, default)\<close>.\<close>
  "dict_get d k dflt = (case d k of None \<Rightarrow> dflt | Some v \<Rightarrow> v)"

subsection \<open>Binary floating point\<close>

text \<open>
  Where an integer result depends on how a product or a sum is rounded, the arithmetic is
  that of Python's \<open>float\<close>: every operation returns the binary64 number nearest to the
  exact result, a tie going to the even significand. A number in the binade
  \<open>2^e \<le> |x| < 2^(e+1)\<close> is rounded to a multiple of \<open>2^(e-52)\<close>. The exponent range of
  binary64 is not modelled: the quantities of this system are far from \<open>2^1023\<close> and, when
  they are not zero, far from \<open>2^-1022\<close>.
\<close>

fun bit_length :: "nat \<Rightarrow> nat" where
  "bit_length n = (if n = 0 then 0 else Suc (bit_length (n div 2)))"

declare bit_length.simps [simp del]

definition binade :: "real \<Rightarrow> int" where
  \<comment> \<open>For \<open>y > 0\<close>, the exponent \<open>e\<close> with \<open>2^e \<le> y < 2^(e+1)\<close>.\<close>
  "binade y =
     (if 1 \<le> y then int (bit_length (nat \<lfloor>y\<rfloor>)) - 1
      else - int (bit_length (nat \<lceil>1 / y\<rceil> - 1)))"

definition fl64 :: "real \<Rightarrow> real" where
  "fl64 x =
     (if x = 0 then 0
      else let e = binade \<bar>x\<bar> - 52
           in of_int (round_half_even (x / 2 powi e)) * 2 powi e)"

text \<open>
  A Python number is an \<open>int\<close> or a \<open>float\<close>. Arithmetic on two integers is exact; as
  soon as one operand is a float the other is converted and the result is rounded.
\<close>

datatype py_number = PyInt int | PyFloat real

fun float_of :: "py_number \<Rightarrow> real" where
  "float_of (PyInt a) = fl64 (of_int a)"
| "float_of (PyFloat x) = x"

fun py_mul :: "py_number \<Rightarrow> py_number \<Rightarrow> py_number" where
  "py_mul (PyInt a) (PyInt b) = PyInt (a * b)"
| "py_mul x y = PyFloat (fl64 (float_of x * float_of y))"

fun py_add :: "py_number \<Rightarrow> py_number \<Rightarrow> py_number" where
  "py_add (PyInt a) (PyInt b) = PyInt (a + b)"
| "py_add x y = PyFloat (fl64 (float_of x + float_of y))"

fun py_int_of :: "py_number \<Rightarrow> int" where
  \<comment> \<open>\<open>int(x)\<close>\<close>
  "py_int_of (PyInt a) = a"
| "py_int_of (PyFloat x) = py_int x"

definition float_literal :: "real \<Rightarrow> py_number" where
  \<comment> \<open>A decimal literal such as \<open>0.3\<close> denotes the binary64 number nearest to it.\<close>
  "float_literal x = PyFloat (fl64 x)"

section \<open>Admission decomposition (scripts/continuous\_surge\_monitor.py)\<close>

record admission_breakdown =
  respiratory :: int
  waterborne :: int
  heat :: int
  trauma :: int
  other :: int

definition calculate_admission_breakdown ::
  "int \<Rightarrow> real \<Rightarrow> (string \<rightharpoonup> real) \<Rightarrow> string list \<Rightarrow> admission_breakdown" where
  "calculate_admission_breakdown total_admissions aqi weather events =
     (let respiratory_pct = 0.15;
          waterborne_pct = 0.10;
          heat_pct = 0.05;
          trauma_pct = 0.20;
          respiratory_pct = (if aqi > 200 then respiratory_pct + 0.10 else respiratory_pct);
          waterborne_pct =
            (if dict_get weather ''rainfall'' 0 > 30 then waterborne_pct + 0.10
             else waterborne_pct);
          heat_pct = (if dict_get weather ''max_temp'' 0 > 35 then heat_pct + 0.08 else heat_pct);
          trauma_pct = (if events \<noteq> [] then trauma_pct + 0.12 else trauma_pct);
          total_pct = respiratory_pct + waterborne_pct + heat_pct + trauma_pct;
          other_pct = max 0 (1 - total_pct)
      in \<lparr>respiratory = py_int (of_int total_admissions * respiratory_pct),
          waterborne = py_int (of_int total_admissions * waterborne_pct),
          heat = py_int (of_int total_admissions * heat_pct),
          trauma = py_int (of_int total_admissions * trauma_pct),
          other = py_int (of_int total_admissions * other_pct)\<rparr>)"

definition breakdown_sum :: "admission_breakdown \<Rightarrow> int" where
  "breakdown_sum b = respiratory b + waterborne b + heat b + trauma b + other b"

section \<open>Surge prediction (models/surge\_predictor.py)\<close>

text \<open>
  \<open>SurgePredictor.predict\<close> keeps a running multiplier and a list of risk-factor labels.
  The labels carry the number they print. The narrative text comes from an external
  text-generation service and does not feed back into the multiplier or the severity; it
  is left out, and so is the date, which is used for the narrative only.
\<close>

datatype severity = SevNone | Minor | Moderate | Major | Critical

datatype risk_factor =
    Severe_AQI real
  | Very_Poor_AQI real
  | Poor_AQI real
  | Heavy_Rainfall real
  | Extreme_Heat real
  | Major_Festival string

record surge_assessment =
  multiplier :: real
  severity :: severity
  risk_factors :: "risk_factor list"

definition aqi_factor :: "real \<Rightarrow> real \<times> risk_factor list \<Rightarrow> real \<times> risk_factor list" where
  "aqi_factor aqi s =
     (case s of (m, rf) \<Rightarrow>
        if aqi > 400 then (m + 0.5, rf @ [Severe_AQI aqi])
        else if aqi > 300 then (m + 0.2, rf @ [Very_Poor_AQI aqi])
        else if aqi > 200 then (m + 0.1, rf @ [Poor_AQI aqi])
        else (m, rf))"

definition rainfall_factor :: "real \<Rightarrow> real \<times> risk_factor list \<Rightarrow> real \<times> risk_factor list" where
  "rainfall_factor rainfall s =
     (case s of (m, rf) \<Rightarrow>
        if rainfall > 50 then (m + 0.3, rf @ [Heavy_Rainfall rainfall])
        else if rainfall > 10 then (m + 0.1, rf)
        else (m, rf))"

definition heat_factor :: "real \<Rightarrow> real \<times> risk_factor list \<Rightarrow> real \<times> risk_factor list" where
  "heat_factor max_temp s =
     (case s of (m, rf) \<Rightarrow>
        if max_temp > 36 then (m + 0.2, rf @ [Extreme_Heat max_temp]) else (m, rf))"

fun event_factor :: "string list \<Rightarrow> real \<times> risk_factor list \<Rightarrow> real \<times> risk_factor list" where
  "event_factor [] s = s"
| "event_factor (event # events) s =
     event_factor events
       (case s of (m, rf) \<Rightarrow>
          if event \<in> set [''Diwali'', ''Ganesh Chaturthi'']
          then (m + 0.3, rf @ [Major_Festival event])
          else if event = ''Monsoon Season'' then (m + 0.1, rf)
          else (m, rf))"

definition severity_of :: "real \<Rightarrow> severity" where
  "severity_of m =
     (if m \<ge> 2.0 then Critical
      else if m \<ge> 1.7 then Major
      else if m \<ge> 1.4 then Moderate
      else if m \<ge> 1.2 then Minor
      else SevNone)"

definition running_multiplier ::
  "real \<Rightarrow> (string \<rightharpoonup> real) \<Rightarrow> string list \<Rightarrow> real \<times> risk_factor list" where
  "running_multiplier aqi weather events =
     (let s = aqi_factor aqi (1.0, []);
          max_temp = dict_get weather ''max_temp'' 0;
          rainfall = dict_get weather ''rainfall'' 0;
          s = rainfall_factor rainfall s;
          s = heat_factor max_temp s
      in event_factor events s)"

definition predict :: "real \<Rightarrow> (string \<rightharpoonup> real) \<Rightarrow> string list \<Rightarrow> surge_assessment" where
  "predict aqi weather events =
     (case running_multiplier aqi weather events of (m, rf) \<Rightarrow>
        \<lparr>multiplier = py_round m 2, severity = severity_of m, risk_factors = rf\<rparr>)"

text \<open>The severity table as the specification words it, on the reported multiplier.\<close>

definition spec_severity_tier :: "real \<Rightarrow> severity" where
  "spec_severity_tier m =
     (if m < 1.2 then SevNone
      else if 1.2 \<le> m \<and> m < 1.4 then Minor
      else if 1.4 \<le> m \<and> m < 1.7 then Moderate
      else if 1.7 \<le> m \<and> m < 2.0 then Major
      else Critical)"

section \<open>Supply planning of the resource service (services/resource\_service.py)\<close>

text \<open>The tables of services/resource\_mappings.py, in their declaration order.\<close>

definition SUPPLY_REQUIREMENTS :: "(string \<times> (string \<times> py_number) list) list" where
  "SUPPLY_REQUIREMENTS =
    [(''Oxygen Cylinders'',
        [(''respiratory'', float_literal 0.3), (''waterborne'', float_literal 0.05),
         (''heat_related'', float_literal 0.2),
         (''trauma'', float_literal 0.3), (''other'', float_literal 0.25)]),
     (''Ventilators'',
        [(''respiratory'', float_literal 0.1), (''waterborne'', float_literal 0.02),
         (''heat_related'', float_literal 0.05),
         (''trauma'', float_literal 0.15), (''other'', float_literal 0.08)]),
     (''Oxygen Masks'',
        [(''respiratory'', float_literal 2.0), (''waterborne'', float_literal 0.5),
         (''heat_related'', float_literal 1.5),
         (''trauma'', float_literal 2.0), (''other'', float_literal 1.5)]),
     (''Humidifiers'',
        [(''respiratory'', float_literal 0.3), (''waterborne'', float_literal 0.05),
         (''heat_related'', float_literal 0.1),
         (''trauma'', float_literal 0.2), (''other'', float_literal 0.15)]),
     (''Trauma Stretchers'',
        [(''respiratory'', float_literal 0.1), (''waterborne'', float_literal 0.05),
         (''heat_related'', float_literal 0.2),
         (''trauma'', float_literal 1.0), (''other'', float_literal 0.15)]),
     (''IV Stand Kits'',
        [(''respiratory'', float_literal 0.6), (''waterborne'', float_literal 0.8),
         (''heat_related'', float_literal 0.9),
         (''trauma'', float_literal 0.95), (''other'', float_literal 0.7)]),
     (''Defibrillators'',
        [(''respiratory'', float_literal 0.02), (''waterborne'', float_literal 0.01),
         (''heat_related'', float_literal 0.05),
         (''trauma'', float_literal 0.08), (''other'', float_literal 0.15)]),
     (''Gloves/PPE'',
        [(''respiratory'', PyInt 25), (''waterborne'', PyInt 20), (''heat_related'', PyInt 12),
         (''trauma'', PyInt 30), (''other'', PyInt 15)]),
     (''Cooling Pads'',
        [(''respiratory'', PyInt 2), (''waterborne'', PyInt 1), (''heat_related'', PyInt 15),
         (''trauma'', PyInt 3), (''other'', PyInt 2)]),
     (''Thermometers'',
        [(''respiratory'', float_literal 0.5), (''waterborne'', float_literal 0.3),
         (''heat_related'', float_literal 0.6),
         (''trauma'', float_literal 0.4), (''other'', float_literal 0.4)])]"

definition SAFETY_BUFFERS :: "(string \<times> py_number) list" where
  "SAFETY_BUFFERS = [(''Municipal'', float_literal 0.30), (''Private'', float_literal 0.20)]"

text \<open>
  An entry of \<open>inventory_data\<close> as \<open>_load_inventory\<close> builds it: every entry has a name,
  a type and an inventory.
\<close>

record hospital_info =
  info_name :: string
  info_type :: string
  info_inventory :: "string \<rightharpoonup> int"

record supply_status =
  item_name :: string
  current_stock :: int
  projected_need :: int
  stock_percentage :: real
  status :: string
  action_required :: string
  quantity_to_order :: int

definition categories :: "string list" where
  "categories = [''respiratory'', ''waterborne'', ''heat_related'', ''trauma'', ''other'']"

text \<open>The body of the loop over the supply items.\<close>

definition supply_status_of ::
  "py_number \<Rightarrow> (string \<rightharpoonup> int) \<Rightarrow> (string \<rightharpoonup> int)
     \<Rightarrow> string \<times> (string \<times> py_number) list \<Rightarrow> supply_status" where
  "supply_status_of safety_buffer current_inventory admissions item =
     (case item of (supply_name, requirements) \<Rightarrow>
        let base_need =
              foldl py_add (PyInt 0)
                (map (\<lambda>category.
                        py_mul (PyInt (dict_get admissions category 0))
                          (dict_get (map_of requirements) category (PyInt 0)))
                   categories);
            projected_need = py_int_of (py_mul base_need safety_buffer);
            current_stock = dict_get current_inventory supply_name 0;
            stock_percentage =
              (if projected_need > 0
               then of_int current_stock / of_int projected_need * 100 else 100);
            status_action =
              (if stock_percentage < 50 then (''CRITICAL'', ''ORDER_IMMEDIATELY'')
               else if stock_percentage < 80 then (''LOW'', ''ORDER_IMMEDIATELY'')
               else (''OK'', ''None''));
            quantity_to_order = max 0 (projected_need - current_stock)
        in \<lparr>item_name = supply_name,
            current_stock = current_stock,
            projected_need = projected_need,
            stock_percentage = py_round stock_percentage 1,
            status = fst status_action,
            action_required = snd status_action,
            quantity_to_order = quantity_to_order\<rparr>)"

definition ResourceService_calculate_supply_needs ::
  "(string \<rightharpoonup> hospital_info) \<Rightarrow> string \<Rightarrow> (string \<rightharpoonup> int) \<Rightarrow> supply_status list" where
  "ResourceService_calculate_supply_needs inventory_data hospital_id admissions =
     (let hospital_type =
            (case inventory_data hospital_id of
               None \<Rightarrow> ''Private'' | Some hospital_info \<Rightarrow> info_type hospital_info);
          safety_buffer =
            py_add (PyInt 1) (dict_get (map_of SAFETY_BUFFERS) hospital_type (float_literal 0.2));
          current_inventory =
            (case inventory_data hospital_id of
               None \<Rightarrow> Map.empty | Some hospital_info \<Rightarrow> info_inventory hospital_info)
      in map (supply_status_of safety_buffer current_inventory admissions) SUPPLY_REQUIREMENTS)"





definition float_base_need :: "(string \<rightharpoonup> int) \<Rightarrow> (string \<rightharpoonup> py_number) \<Rightarrow> py_number" where
  "float_base_need admissions rate =
     py_add (py_add (py_add (py_add (py_add (PyInt 0)
       (py_mul (PyInt (dict_get admissions ''respiratory'' 0))
          (dict_get rate ''respiratory'' (PyInt 0))))
       (py_mul (PyInt (dict_get admissions ''waterborne'' 0))
          (dict_get rate ''waterborne'' (PyInt 0))))
       (py_mul (PyInt (dict_get admissions ''heat_related'' 0))
          (dict_get rate ''heat_related'' (PyInt 0))))
       (py_mul (PyInt (dict_get admissions ''trauma'' 0))
          (dict_get rate ''trauma'' (PyInt 0))))
       (py_mul (PyInt (dict_get admissions ''other'' 0))
          (dict_get rate ''other'' (PyInt 0)))"


text \<open>
  The coverage of an item, from the stock and the projected need that the item reports.
\<close>

definition coverage_percent :: "supply_status \<Rightarrow> real" where
  "coverage_percent s =
     (if projected_need s > 0 then of_int (current_stock s) / of_int (projected_need s) * 100
      else 100)"

section \<open>Resource recommendation agent (agent/resource\_recommendation\_agent.py)\<close>

datatype error = KeyError string

definition lead_times :: "(string \<times> int) list" where
  "lead_times =
     [(''doctors'', 0), (''nurses'', 0), (''support_staff'', 1), (''ppe_kits'', 2),
      (''oxygen_liters'', 1), (''iv_fluids_ml'', 2), (''medications_units'', 3),
      (''bed_linens'', 1)]"

definition inventory_buffer :: real where
  "inventory_buffer = 0.15"

definition clinical_criticality :: "(string \<times> real) list" where
  "clinical_criticality =
     [(''doctors'', 1.0), (''nurses'', 1.0), (''oxygen_liters'', 0.95),
      (''medications_units'', 0.9), (''ppe_kits'', 0.85), (''iv_fluids_ml'', 0.85),
      (''beds_needed'', 0.8), (''support_staff'', 0.75), (''bed_linens'', 0.6)]"

definition calculate_resource_priority :: "string \<Rightarrow> int \<Rightarrow> int \<Rightarrow> int \<Rightarrow> real" where
  "calculate_resource_priority =
     (\<lambda>resource_type current_stock required days_until_surge.
        let shortage_ratio =
              (if required > 0 then max 0 (of_int (required - current_stock) / of_int required)
               else 0);
            lead_time = dict_get (map_of lead_times) resource_type 0;
            time_urgency =
              (if days_until_surge \<le> lead_time then 1.0
               else max 0 (1 - of_int (days_until_surge - lead_time) / 7));
            criticality = dict_get (map_of clinical_criticality) resource_type 0.5;
            priority = 100 * shortage_ratio * time_urgency * criticality
        in min 100 priority)"

record staff_allocation =
  s_required :: int
  s_available :: int
  s_to_deploy :: int
  s_coverage :: real

definition calculate_staff_needs ::
  "(string \<rightharpoonup> int) \<Rightarrow> (string \<rightharpoonup> int) \<Rightarrow> (string \<times> staff_allocation) list" where
  "calculate_staff_needs required_staff available_staff =
     map (\<lambda>staff_type.
            let required = dict_get required_staff staff_type 0;
                available = dict_get available_staff staff_type 0;
                shortage = max 0 (required - available)
            in (staff_type,
                \<lparr>s_required = required,
                 s_available = available,
                 s_to_deploy = shortage,
                 s_coverage =
                   (if required > 0 then of_int (available + shortage) / of_int required * 100
                    else 100)\<rparr>))
       [''doctors'', ''nurses'', ''support_staff'']"

record procurement_item =
  p_supply :: string
  p_required :: int
  p_current_stock :: int
  p_to_order :: int
  p_priority :: real
  p_lead_time_days :: int
  p_order_immediately :: bool
  p_delivery_possible :: bool

text \<open>
  The loop over \<open>required_supplies.items()\<close>. Reading \<open>self.lead_times[supply_type]\<close>
  raises \<open>KeyError\<close> for a supply type that has a shortage and no lead time.
\<close>

fun supply_loop ::
  "int \<Rightarrow> (string \<rightharpoonup> int) \<Rightarrow> (string \<times> int) list \<Rightarrow> procurement_item list
     \<Rightarrow> error + procurement_item list" where
  "supply_loop days_until_surge current_inventory [] procurement_plan = Inr procurement_plan"
| "supply_loop days_until_surge current_inventory (entry # rest) procurement_plan =
     (let supply_type = fst entry;
          required = snd entry;
          current = dict_get current_inventory supply_type 0;
          shortage = max 0 (py_int (of_int required * (1 + inventory_buffer) - of_int current))
      in if shortage = 0 then supply_loop days_until_surge current_inventory rest procurement_plan
         else
           let priority = calculate_resource_priority supply_type current required days_until_surge
           in case map_of lead_times supply_type of
                None \<Rightarrow> Inl (KeyError supply_type)
              | Some lead_time \<Rightarrow>
                  let delivery_possible = days_until_surge > lead_time
                  in supply_loop days_until_surge current_inventory rest
                       (procurement_plan @
                          [\<lparr>p_supply = supply_type,
                            p_required = required,
                            p_current_stock = current,
                            p_to_order = shortage,
                            p_priority = priority,
                            p_lead_time_days = lead_time,
                            p_order_immediately = (priority > 80 \<or> \<not> delivery_possible),
                            p_delivery_possible = delivery_possible\<rparr>]))"

text \<open>
  \<open>list.sort(key, reverse=True)\<close> is stable: items of equal priority keep their order.
\<close>

definition Agent_calculate_supply_needs ::
  "(string \<times> int) list \<Rightarrow> (string \<rightharpoonup> int) \<Rightarrow> int \<Rightarrow> error + procurement_item list" where
  "Agent_calculate_supply_needs required_supplies current_inventory days_until_surge =
     (case supply_loop days_until_surge current_inventory required_supplies [] of
        Inl e \<Rightarrow> Inl e
      | Inr procurement_plan \<Rightarrow> Inr (sort_key (\<lambda>x. - p_priority x) procurement_plan))"

definition np_mean :: "real list \<Rightarrow> real" where
  "np_mean xs = sum_list xs / of_nat (length xs)"

definition calculate_readiness_score ::
  "(string \<times> staff_allocation) list \<Rightarrow> procurement_item list \<Rightarrow> real" where
  "calculate_readiness_score staff_plan supply_plan =
     (let staff_scores = map (\<lambda>details. s_coverage (snd details)) staff_plan;
          avg_staff_readiness = (if staff_scores \<noteq> [] then np_mean staff_scores else 100);
          supply_scores =
            map (\<lambda>item.
                   let coverage =
                         (if p_required item > 0
                          then of_int (p_current_stock item + p_to_order item)
                                 / of_int (p_required item) * 100
                          else 100)
                   in min 100 coverage)
              supply_plan;
          avg_supply_readiness = (if supply_scores \<noteq> [] then np_mean supply_scores else 100);
          overall_readiness = avg_staff_readiness * 0.6 + avg_supply_readiness * 0.4
      in py_round overall_readiness 1)"

text \<open>
  \<open>generate_comprehensive_resource_plan\<close> without its logging, its date strings and the
  action timeline, none of which the readiness score reads.
\<close>

record resource_plan =
  staff_allocation :: "(string \<times> staff_allocation) list"
  supply_procurement :: "procurement_item list"
  readiness_score :: real

definition generate_comprehensive_resource_plan ::
  "(string \<rightharpoonup> int) \<Rightarrow> (string \<rightharpoonup> int) \<Rightarrow> int \<Rightarrow> error + resource_plan" where
  "generate_comprehensive_resource_plan required available days_until_surge =
     (let staff_plan =
            calculate_staff_needs
              [''doctors'' \<mapsto> dict_get required ''doctors_needed'' 0,
               ''nurses'' \<mapsto> dict_get required ''nurses_needed'' 0,
               ''support_staff'' \<mapsto> dict_get required ''support_staff_needed'' 0]
              [''doctors'' \<mapsto> dict_get available ''doctors'' 0,
               ''nurses'' \<mapsto> dict_get available ''nurses'' 0,
               ''support_staff'' \<mapsto> dict_get available ''support_staff'' 0]
      in case Agent_calculate_supply_needs
                [(''ppe_kits'', dict_get required ''ppe_kits'' 0),
                 (''oxygen_liters'', dict_get required ''oxygen_liters'' 0),
                 (''iv_fluids_ml'', dict_get required ''iv_fluids_ml'' 0),
                 (''medications_units'', dict_get required ''medications_units'' 0),
                 (''bed_linens'', dict_get required ''bed_linens'' 0)]
                [''ppe_kits'' \<mapsto> dict_get available ''ppe_kits'' 0,
                 ''oxygen_liters'' \<mapsto> dict_get available ''oxygen_liters'' 0,
                 ''iv_fluids_ml'' \<mapsto> dict_get available ''iv_fluids_ml'' 0,
                 ''medications_units'' \<mapsto> dict_get available ''medications_units'' 0,
                 ''bed_linens'' \<mapsto> dict_get available ''bed_linens'' 0]
                days_until_surge of
           Inl e \<Rightarrow> Inl e
         | Inr supply_plan \<Rightarrow>
             Inr \<lparr>staff_allocation = staff_plan,
                  supply_procurement = supply_plan,
                  readiness_score = calculate_readiness_score staff_plan supply_plan\<rparr>)"

text \<open>The priority formula as the specification words it.\<close>

definition spec_shortage_ratio :: "int \<Rightarrow> int \<Rightarrow> real" where
  "spec_shortage_ratio req stock =
     (if req = 0 then 0 else max 0 (of_int (req - stock) / of_int req))"

definition spec_time_urgency :: "int \<Rightarrow> int \<Rightarrow> real" where
  "spec_time_urgency days lead =
     (if days \<le> lead then 1 else max 0 (1 - of_int (days - lead) / 7))"

text \<open>What the loop records for an entry of \<open>required_supplies\<close> that it keeps.\<close>

definition planned ::
  "int \<Rightarrow> (string \<rightharpoonup> int) \<Rightarrow> (string \<times> int) list \<Rightarrow> procurement_item \<Rightarrow> bool" where
  "planned days stock rs item =
     ((p_supply item, p_required item) \<in> set rs
      \<and> p_current_stock item = dict_get stock (p_supply item) 0
      \<and> p_to_order item =
          max 0 (py_int (of_int (p_required item) * (1 + inventory_buffer)
                          - of_int (p_current_stock item)))
      \<and> p_to_order item \<noteq> 0
      \<and> p_priority item =
          calculate_resource_priority (p_supply item) (p_current_stock item) (p_required item) days
      \<and> map_of lead_times (p_supply item) = Some (p_lead_time_days item)
      \<and> p_delivery_possible item = (days > p_lead_time_days item)
      \<and> p_order_immediately item = (p_priority item > 80 \<or> \<not> p_delivery_possible item))"

section \<open>Pooling across hospitals (agent/resource\_recommendation\_agent.py)\<close>

text \<open>
  A hospital of \<open>hospitals_data\<close>. Its required resources are iterated, so they are an
  association list; its available resources are only looked up.
\<close>

record 'h hospital =
  hospital_id :: 'h
  required_resources :: "(string \<times> int) list"
  available_resources :: "string \<rightharpoonup> int"

text \<open>The four dictionaries that the first loop fills.\<close>

record 'h pooling_state =
  total_requirements :: "(string \<times> int) list"
  total_available :: "(string \<times> int) list"
  hospitals_with_surplus :: "('h \<times> (string \<times> int) list) list"
  hospitals_with_shortage :: "('h \<times> (string \<times> int) list) list"

definition record_amount ::
  "'h \<Rightarrow> string \<Rightarrow> int \<Rightarrow> ('h \<times> (string \<times> int) list) list
     \<Rightarrow> ('h \<times> (string \<times> int) list) list" where
  \<comment> \<open>\<open>if h_id not in table: table[h_id] = {}\<close>, then
      \<open>table[h_id][resource_type] = amount\<close>.\<close>
  "record_amount h_id resource_type amount table =
     AList.update h_id
       (AList.update resource_type amount (dict_get (map_of table) h_id [])) table"

definition analyze_resource :: "'h hospital \<Rightarrow> 'h pooling_state \<Rightarrow> string \<Rightarrow> 'h pooling_state" where
  "analyze_resource hospital s resource_type =
     (let h_id = hospital_id hospital;
          req = dict_get (map_of (required_resources hospital)) resource_type 0;
          avail = dict_get (available_resources hospital) resource_type 0;
          s = s\<lparr>total_requirements :=
                  AList.update resource_type
                    (dict_get (map_of (total_requirements s)) resource_type 0 + req)
                    (total_requirements s),
                total_available :=
                  AList.update resource_type
                    (dict_get (map_of (total_available s)) resource_type 0 + avail)
                    (total_available s)\<rparr>
      in if avail > req
         then s\<lparr>hospitals_with_surplus :=
                  record_amount h_id resource_type (avail - req) (hospitals_with_surplus s)\<rparr>
         else if req > avail
         then s\<lparr>hospitals_with_shortage :=
                  record_amount h_id resource_type (req - avail) (hospitals_with_shortage s)\<rparr>
         else s)"

definition analyze_hospital :: "'h pooling_state \<Rightarrow> 'h hospital \<Rightarrow> 'h pooling_state" where
  "analyze_hospital s hospital =
     foldl (analyze_resource hospital) s (map fst (required_resources hospital))"

definition analyze_hospitals :: "'h hospital list \<Rightarrow> 'h pooling_state" where
  "analyze_hospitals hospitals_data =
     foldl analyze_hospital
       \<lparr>total_requirements = [], total_available = [],
        hospitals_with_surplus = [], hospitals_with_shortage = []\<rparr>
       hospitals_data"

record 'h pooling_recommendation =
  r_resource :: string
  r_total_surplus :: int
  r_total_shortage :: int
  r_can_transfer :: int
  r_surplus_hospitals :: "('h \<times> int) list"
  r_shortage_hospitals :: "('h \<times> int) list"

definition holders :: "string \<Rightarrow> ('h \<times> (string \<times> int) list) list \<Rightarrow> ('h \<times> int) list" where
  \<comment> \<open>\<open>[(h_id, d.get(resource_type, 0)) for h_id, d in table.items() if resource_type in d]\<close>\<close>
  "holders resource_type table =
     map (\<lambda>e. (fst e, dict_get (map_of (snd e)) resource_type 0))
       (filter (\<lambda>e. resource_type \<in> fst ` set (snd e)) table)"

definition pooling_recommendation_for ::
  "'h pooling_state \<Rightarrow> string \<Rightarrow> 'h pooling_recommendation list" where
  "pooling_recommendation_for s resource_type =
     (let surplus_hospitals = holders resource_type (hospitals_with_surplus s);
          shortage_hospitals = holders resource_type (hospitals_with_shortage s)
      in if surplus_hospitals \<noteq> [] \<and> shortage_hospitals \<noteq> []
         then
           let transferable =
                 min (sum_list (map snd surplus_hospitals)) (sum_list (map snd shortage_hospitals))
           in [\<lparr>r_resource = resource_type,
                r_total_surplus = sum_list (map snd surplus_hospitals),
                r_total_shortage = sum_list (map snd shortage_hospitals),
                r_can_transfer = transferable,
                r_surplus_hospitals = surplus_hospitals,
                r_shortage_hospitals = shortage_hospitals\<rparr>]
         else [])"

text \<open>
  The last loop indexes both totals directly, which raises \<open>KeyError\<close> for a missing key.
\<close>

fun network_loop ::
  "string list \<Rightarrow> (string \<times> int) list \<Rightarrow> (string \<times> int) list \<Rightarrow> (string \<times> int) list
     \<Rightarrow> error + (string \<times> int) list" where
  "network_loop [] treq tav network_procurement = Inr network_procurement"
| "network_loop (resource_type # rest) treq tav network_procurement =
     (case map_of treq resource_type of
        None \<Rightarrow> Inl (KeyError resource_type)
      | Some r \<Rightarrow>
          (case map_of tav resource_type of
             None \<Rightarrow> Inl (KeyError resource_type)
           | Some a \<Rightarrow>
               let network_shortage = max 0 (r - a)
               in network_loop rest treq tav
                    (if network_shortage > 0
                     then AList.update resource_type network_shortage network_procurement
                     else network_procurement)))"

record 'h network_analysis = "'h pooling_state" +
  network_procurement_needed :: "(string \<times> int) list"
  pooling_opportunities :: "'h pooling_recommendation list"

text \<open>
  The text of each recommendation only prints \<open>can_transfer\<close> and is left out.
\<close>

definition generate_multi_hospital_recommendations ::
  "'h hospital list \<Rightarrow> error + 'h network_analysis" where
  "generate_multi_hospital_recommendations hospitals_data =
     (let s = analyze_hospitals hospitals_data;
          pooling_recommendations =
            concat (map (pooling_recommendation_for s) (map fst (total_requirements s)))
      in case network_loop (map fst (total_requirements s))
                (total_requirements s) (total_available s) [] of
           Inl e \<Rightarrow> Inl e
         | Inr network_procurement \<Rightarrow>
             Inr \<lparr>total_requirements = total_requirements s,
                  total_available = total_available s,
                  hospitals_with_surplus = hospitals_with_surplus s,
                  hospitals_with_shortage = hospitals_with_shortage s,
                  network_procurement_needed = network_procurement,
                  pooling_opportunities = pooling_recommendations\<rparr>)"

text \<open>
  Per facility and resource type, as the pooling rule words it. A facility counts for a
  resource type when its required resources list the type.
\<close>

definition listed :: "'h hospital \<Rightarrow> string \<Rightarrow> bool" where
  "listed h rt = (rt \<in> fst ` set (required_resources h))"

definition required_of :: "'h hospital \<Rightarrow> string \<Rightarrow> int" where
  "required_of h rt = dict_get (map_of (required_resources h)) rt 0"

definition available_of :: "'h hospital \<Rightarrow> string \<Rightarrow> int" where
  "available_of h rt = (if listed h rt then dict_get (available_resources h) rt 0 else 0)"

definition surplus_of :: "'h hospital \<Rightarrow> string \<Rightarrow> int" where
  "surplus_of h rt = max 0 (available_of h rt - required_of h rt)"

definition shortage_of :: "'h hospital \<Rightarrow> string \<Rightarrow> int" where
  "shortage_of h rt = max 0 (required_of h rt - available_of h rt)"

text \<open>
  Notions used to reason about the first loop: the (hospital, resource type) pairs it visits
  in order, one visit as a step on the state, and the amount a visit records in a table.
\<close>

definition resource_pairs :: "'h hospital list \<Rightarrow> ('h hospital \<times> string) list" where
  "resource_pairs hs = concat (map (\<lambda>h. map (Pair h) (map fst (required_resources h))) hs)"

definition step :: "'h pooling_state \<Rightarrow> 'h hospital \<times> string \<Rightarrow> 'h pooling_state" where
  "step s p = analyze_resource (fst p) s (snd p)"

definition pair_key :: "'h hospital \<times> string \<Rightarrow> 'h \<times> string" where
  "pair_key p = (hospital_id (fst p), snd p)"

definition surplus_amount :: "'h hospital \<times> string \<Rightarrow> int" where
  "surplus_amount p =
     dict_get (available_resources (fst p)) (snd p) 0
       - dict_get (map_of (required_resources (fst p))) (snd p) 0"

definition shortage_amount :: "'h hospital \<times> string \<Rightarrow> int" where
  "shortage_amount p =
     dict_get (map_of (required_resources (fst p))) (snd p) 0
       - dict_get (available_resources (fst p)) (snd p) 0"

definition table_step ::
  "('h hospital \<times> string \<Rightarrow> int) \<Rightarrow> ('h \<times> (string \<times> int) list) list \<Rightarrow> 'h hospital \<times> string
     \<Rightarrow> ('h \<times> (string \<times> int) list) list" where
  "table_step amount table p =
     (if 0 < amount p then record_amount (hospital_id (fst p)) (snd p) (amount p) table
      else table)"

definition has_key :: "('h \<times> (string \<times> int) list) list \<Rightarrow> 'h \<Rightarrow> string \<Rightarrow> bool" where
  "has_key table h_id rt = (rt \<in> fst ` set (dict_get (map_of table) h_id []))"

definition table_sum :: "string \<Rightarrow> ('h \<times> (string \<times> int) list) list \<Rightarrow> int" where
  "table_sum rt table = (\<Sum>e\<leftarrow>table. dict_get (map_of (snd e)) rt 0)"

text \<open>Two networks of two hospitals: the pooling scenario of the specification, and one
  whose second hospital stocks a resource that it does not list as required.\<close>

definition scenario4 :: "string hospital list" where
  "scenario4 =
     [\<lparr>hospital_id = ''A'', required_resources = [(''ppe_kits'', 800)],
       available_resources = [''ppe_kits'' \<mapsto> 300]\<rparr>,
      \<lparr>hospital_id = ''B'', required_resources = [(''ppe_kits'', 200)],
       available_resources = [''ppe_kits'' \<mapsto> 1000]\<rparr>]"

definition unlisted_stock :: "string hospital list" where
  "unlisted_stock =
     [\<lparr>hospital_id = ''A'', required_resources = [(''ppe_kits'', 10)],
       available_resources = Map.empty\<rparr>,
      \<lparr>hospital_id = ''B'', required_resources = [],
       available_resources = [''ppe_kits'' \<mapsto> 100]\<rparr>]"

section \<open>Results\<close>

subsection \<open>Admission decomposition\<close>

text \<open>
  C1. The claim is that the five category counts always add up to the total. Each count is
  truncated on its own and nothing absorbs the remainder: for the default baseline of 150
  admissions under calm conditions the counts are 22, 15, 7, 30 and 75, which add up to 149.
\<close>

theorem admission_breakdown_loses_remainder:
  "breakdown_sum (calculate_admission_breakdown 150 0 Map.empty []) = 149"
  by (simp add: breakdown_sum_def calculate_admission_breakdown_def dict_get_def py_int_def)

subsection \<open>Surge multiplier and severity\<close>


lemma round_half_even_mono: "x \<le> y \<Longrightarrow> round_half_even x \<le> round_half_even y"
proof -
  assume xy: "x \<le> y"
  have fl: "\<lfloor>x\<rfloor> \<le> \<lfloor>y\<rfloor>" using xy by (rule floor_mono)
  have lo: "\<lfloor>y\<rfloor> \<le> round_half_even y" by (simp add: round_half_even_def Let_def)
  have hi: "round_half_even x \<le> \<lfloor>x\<rfloor> + 1" by (simp add: round_half_even_def Let_def)
  show ?thesis
  proof (cases "\<lfloor>x\<rfloor> < \<lfloor>y\<rfloor>")
    case True
    then show ?thesis using lo hi by linarith
  next
    case False
    then have eq: "\<lfloor>x\<rfloor> = \<lfloor>y\<rfloor>" using fl by linarith
    then show ?thesis using xy by (auto simp add: round_half_even_def Let_def)
  qed
qed

lemma py_round_mono: "x \<le> y \<Longrightarrow> py_round x n \<le> py_round y n"
  unfolding py_round_def
  by (intro divide_right_mono of_int_le_iff[THEN iffD2] round_half_even_mono mult_right_mono) simp_all

lemma round_half_even_of_int: "round_half_even (of_int k) = k"
  by (simp add: round_half_even_def)

lemma py_round_tenths: "py_round (of_int k / 10) 2 = of_int k / 10"
proof -
  have "(of_int k / 10 :: real) * 10 ^ 2 = of_int (k * 10)" by simp
  then have "round_half_even ((of_int k / 10 :: real) * 10 ^ 2) = k * 10"
    using round_half_even_of_int by metis
  then show ?thesis by (simp add: py_round_def)
qed

lemma event_factor_mono:
  "m \<le> m' \<Longrightarrow> fst (event_factor es (m, rf)) \<le> fst (event_factor es (m', rf'))"
  by (induction es arbitrary: m m' rf rf') auto

lemma event_factor_ge: "m \<le> fst (event_factor es (m, rf))"
proof (induction es arbitrary: m rf)
  case Nil
  then show ?case by simp
next
  case (Cons e es)
  have a: "m + 0.3 \<le> fst (event_factor es (m + 0.3, rf @ [Major_Festival e]))" by (rule Cons.IH)
  have b: "m + 0.1 \<le> fst (event_factor es (m + 0.1, rf))" by (rule Cons.IH)
  have c: "m \<le> fst (event_factor es (m, rf))" by (rule Cons.IH)
  show ?case using a b c by auto
qed

lemma event_factor_tenths:
  "\<exists>k::int. fst (event_factor es (of_int j / 10, rf)) = of_int k / 10"
proof (induction es arbitrary: j rf)
  case Nil
  then show ?case by auto
next
  case (Cons e es)
  have a: "(of_int j / 10 + 0.3 :: real) = of_int (j + 3) / 10" by simp
  have b: "(of_int j / 10 + 0.1 :: real) = of_int (j + 1) / 10" by simp
  show ?case using Cons.IH[of "j + 3"] Cons.IH[of "j + 1"] Cons.IH[of j] 
    by (simp only: event_factor.simps prod.case a b split: if_splits) auto
qed

lemma aqi_factor_tenths: "\<exists>k::int. fst (aqi_factor a (of_int j / 10, rf)) = of_int k / 10"
proof -
  have "fst (aqi_factor a (of_int j / 10, rf)) = of_int (j + 5) / 10
      \<or> fst (aqi_factor a (of_int j / 10, rf)) = of_int (j + 2) / 10
      \<or> fst (aqi_factor a (of_int j / 10, rf)) = of_int (j + 1) / 10
      \<or> fst (aqi_factor a (of_int j / 10, rf)) = of_int j / 10"
    by (simp add: aqi_factor_def)
  then show ?thesis by blast
qed

lemma rainfall_factor_tenths: "\<exists>k::int. fst (rainfall_factor r (of_int j / 10, rf)) = of_int k / 10"
proof -
  have "fst (rainfall_factor r (of_int j / 10, rf)) = of_int (j + 3) / 10
      \<or> fst (rainfall_factor r (of_int j / 10, rf)) = of_int (j + 1) / 10
      \<or> fst (rainfall_factor r (of_int j / 10, rf)) = of_int j / 10"
    by (simp add: rainfall_factor_def)
  then show ?thesis by blast
qed

lemma heat_factor_tenths: "\<exists>k::int. fst (heat_factor t (of_int j / 10, rf)) = of_int k / 10"
proof -
  have "fst (heat_factor t (of_int j / 10, rf)) = of_int (j + 2) / 10
      \<or> fst (heat_factor t (of_int j / 10, rf)) = of_int j / 10"
    by (simp add: heat_factor_def)
  then show ?thesis by blast
qed

lemma running_multiplier_unfold:
  "running_multiplier a w ev =
     event_factor ev (heat_factor (dict_get w ''max_temp'' 0)
       (rainfall_factor (dict_get w ''rainfall'' 0) (aqi_factor a (1, []))))"
  by (simp add: running_multiplier_def Let_def)

lemma running_multiplier_tenths:
  "\<exists>k::int. fst (running_multiplier aqi w ev) = of_int k / 10"
proof -
  obtain m1 rf1 where s1: "aqi_factor aqi (1, []) = (m1, rf1)" by (cases "aqi_factor aqi (1, [])")
  obtain k1 :: int where k1: "m1 = of_int k1 / 10"
    using aqi_factor_tenths[of aqi 10 "[]"] s1 by auto
  obtain m2 rf2 where s2: "rainfall_factor (dict_get w ''rainfall'' 0) (m1, rf1) = (m2, rf2)"
    by (cases "rainfall_factor (dict_get w ''rainfall'' 0) (m1, rf1)")
  obtain k2 :: int where k2: "m2 = of_int k2 / 10"
    using rainfall_factor_tenths[of "dict_get w ''rainfall'' 0" k1 rf1] s2 k1 by auto
  obtain m3 rf3 where s3: "heat_factor (dict_get w ''max_temp'' 0) (m2, rf2) = (m3, rf3)"
    by (cases "heat_factor (dict_get w ''max_temp'' 0) (m2, rf2)")
  obtain k3 :: int where k3: "m3 = of_int k3 / 10"
    using heat_factor_tenths[of "dict_get w ''max_temp'' 0" k2 rf2] s3 k2 by auto
  show ?thesis
    using event_factor_tenths[of ev k3 rf3] by (simp add: running_multiplier_unfold s1 s2 s3 k3)
qed

lemma severity_of_spec: "severity_of m = spec_severity_tier m"
  by (simp add: severity_of_def spec_severity_tier_def)

text \<open>
  C5. For every input, the severity tier that \<open>predict\<close> reports is the one the threshold
  table assigns to the multiplier it reports: below 1.2 none, from 1.2 and below 1.4 minor,
  from 1.4 and below 1.7 moderate, from 1.7 and below 2.0 major, from 2.0 on critical. The
  tier is taken from the running multiplier before it is rounded to two decimals; the
  running multiplier is a whole number of tenths, so rounding leaves it as it is.
\<close>

theorem severity_tier_follows_thresholds:
  "severity (predict aqi weather events) = spec_severity_tier (multiplier (predict aqi weather events))"
proof -
  obtain k :: int where k: "fst (running_multiplier aqi weather events) = of_int k / 10"
    using running_multiplier_tenths by blast
  obtain m rf where mrf: "running_multiplier aqi weather events = (m, rf)"
    by (cases "running_multiplier aqi weather events")
  have "m = of_int k / 10" using k mrf by simp
  then have "py_round m 2 = m" using py_round_tenths[of k] by (simp only:)
  then show ?thesis by (simp add: predict_def mrf severity_of_spec)
qed

lemma aqi_factor_mono: "a \<le> a' \<Longrightarrow> fst (aqi_factor a (m, rf)) \<le> fst (aqi_factor a' (m, rf))"
  by (simp add: aqi_factor_def)

lemma rainfall_factor_mono:
  "r \<le> r' \<Longrightarrow> m \<le> m' \<Longrightarrow> fst (rainfall_factor r (m, rf)) \<le> fst (rainfall_factor r' (m', rf'))"
  by (simp add: rainfall_factor_def)

lemma heat_factor_mono:
  "t \<le> t' \<Longrightarrow> m \<le> m' \<Longrightarrow> fst (heat_factor t (m, rf)) \<le> fst (heat_factor t' (m', rf'))"
  by (simp add: heat_factor_def)

lemma running_multiplier_mono:
  assumes "a \<le> a'" "dict_get w ''rainfall'' 0 \<le> dict_get w' ''rainfall'' 0"
    "dict_get w ''max_temp'' 0 \<le> dict_get w' ''max_temp'' 0"
  shows "fst (running_multiplier a w ev) \<le> fst (running_multiplier a' w' ev)"
proof -
  obtain m1 rf1 where s1: "aqi_factor a (1, []) = (m1, rf1)" by (cases "aqi_factor a (1, [])")
  obtain m1' rf1' where s1': "aqi_factor a' (1, []) = (m1', rf1')" by (cases "aqi_factor a' (1, [])")
  have l1: "m1 \<le> m1'" using aqi_factor_mono[OF assms(1), of "1.0" "[]"] s1 s1' by simp
  obtain m2 rf2 where s2: "rainfall_factor (dict_get w ''rainfall'' 0) (m1, rf1) = (m2, rf2)"
    by (cases "rainfall_factor (dict_get w ''rainfall'' 0) (m1, rf1)")
  obtain m2' rf2' where s2': "rainfall_factor (dict_get w' ''rainfall'' 0) (m1', rf1') = (m2', rf2')"
    by (cases "rainfall_factor (dict_get w' ''rainfall'' 0) (m1', rf1')")
  have l2: "m2 \<le> m2'" using rainfall_factor_mono[OF assms(2) l1, of rf1 rf1'] s2 s2' by simp
  obtain m3 rf3 where s3: "heat_factor (dict_get w ''max_temp'' 0) (m2, rf2) = (m3, rf3)"
    by (cases "heat_factor (dict_get w ''max_temp'' 0) (m2, rf2)")
  obtain m3' rf3' where s3': "heat_factor (dict_get w' ''max_temp'' 0) (m2', rf2') = (m3', rf3')"
    by (cases "heat_factor (dict_get w' ''max_temp'' 0) (m2', rf2')")
  have l3: "m3 \<le> m3'" using heat_factor_mono[OF assms(3) l2, of rf2 rf2'] s3 s3' by simp
  show ?thesis
    using event_factor_mono[OF l3, of ev rf3 rf3']
    by (simp add: running_multiplier_unfold s1 s1' s2 s2' s3 s3')
qed

lemma running_multiplier_ge_1: "1 \<le> fst (running_multiplier a w ev)"
proof -
  obtain m rf where s: "heat_factor (dict_get w ''max_temp'' 0)
          (rainfall_factor (dict_get w ''rainfall'' 0) (aqi_factor a (1, []))) = (m, rf)"
    by (cases "heat_factor (dict_get w ''max_temp'' 0)
          (rainfall_factor (dict_get w ''rainfall'' 0) (aqi_factor a (1, [])))")
  have "1 \<le> m" using s
    by (auto simp add: heat_factor_def rainfall_factor_def aqi_factor_def split: if_splits)
  then show ?thesis using event_factor_ge[of m ev rf]
    by (simp add: running_multiplier_unfold s)
qed

lemma predict_multiplier: "multiplier (predict a w ev) = py_round (fst (running_multiplier a w ev)) 2"
  by (simp add: predict_def split: prod.splits)

lemma py_round_one: "py_round 1 2 = 1"
  using py_round_tenths[of 10] by simp

text \<open>
  C3. The reported surge multiplier does not decrease when the AQI is raised, when the
  rainfall is raised, or when the maximum temperature is raised, the other inputs and the
  events held fixed; and it is never below 1.
\<close>

theorem surge_multiplier_monotone:
  "(aqi \<le> aqi' \<longrightarrow>
      multiplier (predict aqi weather events) \<le> multiplier (predict aqi' weather events))
   \<and> (dict_get weather ''rainfall'' 0 \<le> rainfall' \<longrightarrow>
      multiplier (predict aqi weather events)
        \<le> multiplier (predict aqi (weather(''rainfall'' \<mapsto> rainfall')) events))
   \<and> (dict_get weather ''max_temp'' 0 \<le> max_temp' \<longrightarrow>
      multiplier (predict aqi weather events)
        \<le> multiplier (predict aqi (weather(''max_temp'' \<mapsto> max_temp')) events))
   \<and> 1 \<le> multiplier (predict aqi weather events)"
proof (intro conjI impI)
  assume "aqi \<le> aqi'"
  then show "multiplier (predict aqi weather events) \<le> multiplier (predict aqi' weather events)"
    by (simp add: predict_multiplier py_round_mono running_multiplier_mono)
next
  assume "dict_get weather ''rainfall'' 0 \<le> rainfall'"
  then have "fst (running_multiplier aqi weather events)
      \<le> fst (running_multiplier aqi (weather(''rainfall'' \<mapsto> rainfall')) events)"
    by (intro running_multiplier_mono) (simp_all add: dict_get_def)
  then show "multiplier (predict aqi weather events)
        \<le> multiplier (predict aqi (weather(''rainfall'' \<mapsto> rainfall')) events)"
    by (simp add: predict_multiplier py_round_mono)
next
  assume "dict_get weather ''max_temp'' 0 \<le> max_temp'"
  then have "fst (running_multiplier aqi weather events)
      \<le> fst (running_multiplier aqi (weather(''max_temp'' \<mapsto> max_temp')) events)"
    by (intro running_multiplier_mono) (simp_all add: dict_get_def)
  then show "multiplier (predict aqi weather events)
        \<le> multiplier (predict aqi (weather(''max_temp'' \<mapsto> max_temp')) events)"
    by (simp add: predict_multiplier py_round_mono)
next
  show "1 \<le> multiplier (predict aqi weather events)"
    using py_round_mono[OF running_multiplier_ge_1, of 2 aqi weather events]
    by (simp add: predict_multiplier py_round_one)
qed

text \<open>The three monotonicity hypotheses are met on a concrete day with a festival.\<close>

theorem surge_multiplier_monotone_witness:
  "multiplier (predict 150 [''rainfall'' \<mapsto> 5, ''max_temp'' \<mapsto> 30] [''Diwali''])
     \<le> multiplier (predict 450 [''rainfall'' \<mapsto> 5, ''max_temp'' \<mapsto> 30] [''Diwali''])
   \<and> multiplier (predict 150 [''rainfall'' \<mapsto> 5, ''max_temp'' \<mapsto> 30] [''Diwali''])
     \<le> multiplier (predict 150 ([''rainfall'' \<mapsto> 5, ''max_temp'' \<mapsto> 30](''rainfall'' \<mapsto> 80)) [''Diwali''])
   \<and> multiplier (predict 150 [''rainfall'' \<mapsto> 5, ''max_temp'' \<mapsto> 30] [''Diwali''])
     \<le> multiplier (predict 150 ([''rainfall'' \<mapsto> 5, ''max_temp'' \<mapsto> 30](''max_temp'' \<mapsto> 40)) [''Diwali''])
   \<and> 1 \<le> multiplier (predict 150 [''rainfall'' \<mapsto> 5, ''max_temp'' \<mapsto> 30] [''Diwali''])"
proof -
  have h1: "(150::real) \<le> 450" by simp
  have h2: "dict_get [''rainfall'' \<mapsto> 5, ''max_temp'' \<mapsto> 30] ''rainfall'' 0 \<le> (80::real)"
    by (simp add: dict_get_def)
  have h3: "dict_get [''rainfall'' \<mapsto> 5, ''max_temp'' \<mapsto> 30] ''max_temp'' 0 \<le> (40::real)"
    by (simp add: dict_get_def)
  show ?thesis
    using h1 h2 h3
      surge_multiplier_monotone[of 150 450 "[''rainfall'' \<mapsto> 5, ''max_temp'' \<mapsto> 30]" "[''Diwali'']" 80 40]
    by blast
qed


subsection \<open>Supply planning of the resource service\<close>


lemma base_need_sum:
  "foldl py_add (PyInt 0)
     (map (\<lambda>category.
             py_mul (PyInt (dict_get admissions category 0))
               (dict_get (map_of requirements) category (PyInt 0)))
        categories)
   = float_base_need admissions (map_of requirements)"
  by (simp add: categories_def float_base_need_def)



lemma supply_needs_elem_any:
  assumes "s \<in> set (ResourceService_calculate_supply_needs inventory_data hid admissions)"
  shows "\<exists>safety_buffer current_inventory item.
      s = supply_status_of safety_buffer current_inventory admissions item"
  using assms by (auto simp add: ResourceService_calculate_supply_needs_def Let_def)





lemma supply_status_of_classified:
  "status (supply_status_of b ci adm item) =
     (if coverage_percent (supply_status_of b ci adm item) < 50 then ''CRITICAL''
      else if coverage_percent (supply_status_of b ci adm item) < 80 then ''LOW'' else ''OK'')
   \<and> action_required (supply_status_of b ci adm item) =
     (if coverage_percent (supply_status_of b ci adm item) < 80 then ''ORDER_IMMEDIATELY''
      else ''None'')"
  by (cases item) (simp add: supply_status_of_def Let_def coverage_percent_def)

text \<open>
  C6, as amended. For every element of the returned list, with coverage the ratio
  \<open>current_stock / projected_need\<close> in percent (100 when the projected need is 0):
  below 50 the status is CRITICAL with action ORDER\_IMMEDIATELY, from 50 and below 80 it is
  LOW with action ORDER\_IMMEDIATELY, and from 80 on it is OK with action None. Exactly 50
  is LOW and exactly 80 is OK.
\<close>

theorem status_follows_coverage:
  assumes "s \<in> set (ResourceService_calculate_supply_needs inventory_data hid admissions)"
  shows "(coverage_percent s < 50 \<longrightarrow>
            status s = ''CRITICAL'' \<and> action_required s = ''ORDER_IMMEDIATELY'')
       \<and> (50 \<le> coverage_percent s \<and> coverage_percent s < 80 \<longrightarrow>
            status s = ''LOW'' \<and> action_required s = ''ORDER_IMMEDIATELY'')
       \<and> (80 \<le> coverage_percent s \<longrightarrow>
            status s = ''OK'' \<and> action_required s = ''None'')"
proof -
  obtain b ci item where s: "s = supply_status_of b ci admissions item"
    using supply_needs_elem_any[OF assms] by blast
  show ?thesis
    using supply_status_of_classified[of b ci admissions item] by (simp add: s)
qed

lemmas float_eval =
  fl64_def binade_def bit_length.simps round_half_even_def Let_def power_int_minus
  float_literal_def dict_get_def py_int_def

lemma supply_needs_nth:
  "n < length SUPPLY_REQUIREMENTS \<Longrightarrow>
   ResourceService_calculate_supply_needs [hid \<mapsto> info] hid admissions ! n
     = supply_status_of
         (py_add (PyInt 1)
            (dict_get (map_of SAFETY_BUFFERS) (info_type info) (float_literal 0.2)))
         (info_inventory info) admissions (SUPPLY_REQUIREMENTS ! n)"
  by (simp add: ResourceService_calculate_supply_needs_def Let_def)

lemma supply_requirements_length: "length SUPPLY_REQUIREMENTS = 10"
  by (simp add: SUPPLY_REQUIREMENTS_def)

lemma private_buffer:
  "py_add (PyInt 1) (dict_get (map_of SAFETY_BUFFERS) ''Private'' (float_literal 0.2))
     = PyFloat (5404319552844595 / 2 ^ 52)"
  by (simp add: SAFETY_BUFFERS_def float_eval)

lemma municipal_buffer:
  "py_add (PyInt 1) (dict_get (map_of SAFETY_BUFFERS) ''Municipal'' (float_literal 0.2))
     = PyFloat (5854679515581645 / 2 ^ 52)"
  by (simp add: SAFETY_BUFFERS_def float_eval)

lemma gloves_item:
  "SUPPLY_REQUIREMENTS ! 7 =
     (''Gloves/PPE'',
      [(''respiratory'', PyInt 25), (''waterborne'', PyInt 20), (''heat_related'', PyInt 12),
       (''trauma'', PyInt 30), (''other'', PyInt 15)])"
  by (simp add: SUPPLY_REQUIREMENTS_def)

lemma gloves_need:
  "py_int_of (py_mul
     (float_base_need [''respiratory'' \<mapsto> 1]
        (map_of [(''respiratory'', PyInt 25), (''waterborne'', PyInt 20),
                 (''heat_related'', PyInt 12), (''trauma'', PyInt 30), (''other'', PyInt 15)]))
     (PyFloat (5404319552844595 / 2 ^ 52))) = 30"
  by (simp add: float_base_need_def float_eval)

lemma supply_needs_at:
  assumes "n < length SUPPLY_REQUIREMENTS"
    and "SUPPLY_REQUIREMENTS ! n = item"
    and "py_add (PyInt 1) (dict_get (map_of SAFETY_BUFFERS) t (float_literal 0.2)) = b"
  shows "ResourceService_calculate_supply_needs
           [hid \<mapsto> \<lparr>info_name = nm, info_type = t, info_inventory = ci\<rparr>] hid admissions ! n
         = supply_status_of b ci admissions item"
  using assms by (simp add: ResourceService_calculate_supply_needs_def Let_def)

lemma supply_status_of_record:
  assumes "py_int_of (py_mul (float_base_need adm (map_of requirements)) b) = need"
    and "dict_get ci supply_name 0 = stock"
  shows "supply_status_of b ci adm (supply_name, requirements)
     = \<lparr>item_name = supply_name, current_stock = stock, projected_need = need,
         stock_percentage =
           py_round (if need > 0 then of_int stock / of_int need * 100 else 100) 1,
         status =
           (if (if need > 0 then of_int stock / of_int need * 100 else 100) < (50::real)
            then ''CRITICAL''
            else if (if need > 0 then of_int stock / of_int need * 100 else 100) < (80::real)
            then ''LOW'' else ''OK''),
         action_required =
           (if (if need > 0 then of_int stock / of_int need * 100 else 100) < (80::real)
            then ''ORDER_IMMEDIATELY'' else ''None''),
         quantity_to_order = max 0 (need - stock)\<rparr>"
  unfolding supply_status_of_def prod.case base_need_sum assms Let_def
  by simp

lemma gloves_stock: "dict_get [''Gloves/PPE'' \<mapsto> k] ''Gloves/PPE'' 0 = k"
  by (simp add: dict_get_def)

lemma gloves_eval:
  "ResourceService_calculate_supply_needs
      [''HIN_H5'' \<mapsto> \<lparr>info_name = ''Hinduja Hospital'', info_type = ''Private'',
                      info_inventory = [''Gloves/PPE'' \<mapsto> k]\<rparr>]
      ''HIN_H5'' [''respiratory'' \<mapsto> 1] ! 7
   = \<lparr>item_name = ''Gloves/PPE'', current_stock = k, projected_need = 30,
       stock_percentage = py_round (of_int k / 30 * 100) 1,
       status = (if of_int k / 30 * 100 < (50::real) then ''CRITICAL''
                 else if of_int k / 30 * 100 < (80::real) then ''LOW'' else ''OK''),
       action_required = (if of_int k / 30 * 100 < (80::real) then ''ORDER_IMMEDIATELY'' else ''None''),
       quantity_to_order = max 0 (30 - k)\<rparr>"
proof -
  have n: "7 < length SUPPLY_REQUIREMENTS" by (simp add: supply_requirements_length)
  have "ResourceService_calculate_supply_needs
      [''HIN_H5'' \<mapsto> \<lparr>info_name = ''Hinduja Hospital'', info_type = ''Private'',
                      info_inventory = [''Gloves/PPE'' \<mapsto> k]\<rparr>]
      ''HIN_H5'' [''respiratory'' \<mapsto> 1] ! 7
    = \<lparr>item_name = ''Gloves/PPE'', current_stock = k, projected_need = 30,
         stock_percentage =
           py_round (if (30::int) > 0 then of_int k / of_int 30 * 100 else 100) 1,
         status =
           (if (if (30::int) > 0 then of_int k / of_int 30 * 100 else 100) < (50::real)
            then ''CRITICAL''
            else if (if (30::int) > 0 then of_int k / of_int 30 * 100 else 100) < (80::real)
            then ''LOW'' else ''OK''),
         action_required =
           (if (if (30::int) > 0 then of_int k / of_int 30 * 100 else 100) < (80::real)
            then ''ORDER_IMMEDIATELY'' else ''None''),
         quantity_to_order = max 0 (30 - k)\<rparr>"
    by (rule trans[OF supply_needs_at[OF n gloves_item private_buffer]
          supply_status_of_record[OF gloves_need gloves_stock]])
  then show ?thesis by simp
qed

text \<open>
  C6 as stated puts coverage of exactly 80 per cent in the band ``from 50 up to 80'' (LOW)
  and reserves OK for coverage above 80. A Private hospital with 24 units of Gloves/PPE and
  one respiratory admission has a projected need of 30, a coverage of exactly 80, and the
  status OK with action None.
\<close>

theorem status_at_80_percent_counterexample:
  "coverage_percent
     (ResourceService_calculate_supply_needs
        [''HIN_H5'' \<mapsto> \<lparr>info_name = ''Hinduja Hospital'', info_type = ''Private'',
                        info_inventory = [''Gloves/PPE'' \<mapsto> 24]\<rparr>]
        ''HIN_H5'' [''respiratory'' \<mapsto> 1] ! 7) = 80
   \<and> status
     (ResourceService_calculate_supply_needs
        [''HIN_H5'' \<mapsto> \<lparr>info_name = ''Hinduja Hospital'', info_type = ''Private'',
                        info_inventory = [''Gloves/PPE'' \<mapsto> 24]\<rparr>]
        ''HIN_H5'' [''respiratory'' \<mapsto> 1] ! 7) = ''OK''
   \<and> action_required
     (ResourceService_calculate_supply_needs
        [''HIN_H5'' \<mapsto> \<lparr>info_name = ''Hinduja Hospital'', info_type = ''Private'',
                        info_inventory = [''Gloves/PPE'' \<mapsto> 24]\<rparr>]
        ''HIN_H5'' [''respiratory'' \<mapsto> 1] ! 7) = ''None''"
  by (simp add: gloves_eval coverage_percent_def)

text \<open>
  With 15 units in stock of the 30 needed the coverage is exactly 50 and the item is LOW.
\<close>

theorem status_follows_coverage_witness:
  "coverage_percent
     (ResourceService_calculate_supply_needs
        [''HIN_H5'' \<mapsto> \<lparr>info_name = ''Hinduja Hospital'', info_type = ''Private'',
                        info_inventory = [''Gloves/PPE'' \<mapsto> 15]\<rparr>]
        ''HIN_H5'' [''respiratory'' \<mapsto> 1] ! 7) = 50
   \<and> status
     (ResourceService_calculate_supply_needs
        [''HIN_H5'' \<mapsto> \<lparr>info_name = ''Hinduja Hospital'', info_type = ''Private'',
                        info_inventory = [''Gloves/PPE'' \<mapsto> 15]\<rparr>]
        ''HIN_H5'' [''respiratory'' \<mapsto> 1] ! 7) = ''LOW''
   \<and> action_required
     (ResourceService_calculate_supply_needs
        [''HIN_H5'' \<mapsto> \<lparr>info_name = ''Hinduja Hospital'', info_type = ''Private'',
                        info_inventory = [''Gloves/PPE'' \<mapsto> 15]\<rparr>]
        ''HIN_H5'' [''respiratory'' \<mapsto> 1] ! 7) = ''ORDER_IMMEDIATELY''"
proof -
  let ?out = "ResourceService_calculate_supply_needs
        [''HIN_H5'' \<mapsto> \<lparr>info_name = ''Hinduja Hospital'', info_type = ''Private'',
                        info_inventory = [''Gloves/PPE'' \<mapsto> 15]\<rparr>]
        ''HIN_H5'' [''respiratory'' \<mapsto> 1]"
  have len: "7 < length ?out"
    by (simp add: ResourceService_calculate_supply_needs_def supply_requirements_length Let_def)
  have mem: "?out ! 7 \<in> set ?out" using len by (rule nth_mem)
  have cov: "coverage_percent (?out ! 7) = 50"
    by (simp add: gloves_eval coverage_percent_def)
  have "50 \<le> coverage_percent (?out ! 7) \<and> coverage_percent (?out ! 7) < 80"
    using cov by simp
  then show ?thesis using status_follows_coverage[OF mem] cov by blast
qed









subsection \<open>Priority score\<close>


lemma criticality_bounds:
  "0 \<le> dict_get (map_of clinical_criticality) rt 0.5
   \<and> dict_get (map_of clinical_criticality) rt 0.5 \<le> 1"
  by (simp add: clinical_criticality_def dict_get_def)

lemma shortage_ratio_bounds:
  assumes "0 \<le> c" "0 \<le> r"
  shows "0 \<le> spec_shortage_ratio r c \<and> spec_shortage_ratio r c \<le> 1"
proof (cases "r = 0")
  case True
  then show ?thesis by (simp add: spec_shortage_ratio_def)
next
  case False
  then have pos: "0 < (of_int r :: real)" using assms(2) by simp
  have "(of_int (r - c) :: real) \<le> of_int r" using assms(1) by simp
  then have "(of_int (r - c) :: real) / of_int r \<le> 1" using pos by (simp add: divide_le_eq)
  then show ?thesis using False by (simp add: spec_shortage_ratio_def)
qed

lemma time_urgency_bounds: "0 \<le> spec_time_urgency d l \<and> spec_time_urgency d l \<le> 1"
  by (simp add: spec_time_urgency_def)

lemma priority_unfold:
  "calculate_resource_priority rt c r d =
     min 100 (100 * (if r > 0 then max 0 (of_int (r - c) / of_int r) else 0)
                  * spec_time_urgency d (dict_get (map_of lead_times) rt 0)
                  * dict_get (map_of clinical_criticality) rt 0.5)"
  by (simp add: calculate_resource_priority_def Let_def spec_time_urgency_def)

lemma prod3_bounds:
  fixes a b c :: real
  assumes "0 \<le> a" "a \<le> 1" "0 \<le> b" "b \<le> 1" "0 \<le> c" "c \<le> 1"
  shows "0 \<le> 100 * a * b * c \<and> 100 * a * b * c \<le> 100"
proof -
  have ab: "0 \<le> a * b \<and> a * b \<le> 1" using assms by (simp add: mult_le_one)
  then have abc: "0 \<le> a * b * c \<and> a * b * c \<le> 1" using assms by (simp add: mult_le_one)
  have "100 * a * b * c = 100 * (a * b * c)" by simp
  then show ?thesis using abc by simp
qed

text \<open>
  C7. The priority score always lies between 0 and 100. For a non-negative stock and a
  non-negative requirement it equals \<open>100 * shortage_ratio * time_urgency * criticality\<close>,
  with \<open>shortage_ratio = max(0, (required - stock) / required)\<close> (0 when the requirement is
  0), \<open>time_urgency = 1\<close> when the surge is no further away than the lead time and
  \<open>max(0, 1 - (days - lead_time) / 7)\<close> otherwise, the lead time being 0 and the
  criticality 0.5 for a resource type that the tables do not list: capping the product at
  100 never changes it.
\<close>

theorem priority_score_formula:
  "(0 \<le> calculate_resource_priority resource_type stock req days
      \<and> calculate_resource_priority resource_type stock req days \<le> 100)
   \<and> (0 \<le> stock \<and> 0 \<le> req \<longrightarrow>
        calculate_resource_priority resource_type stock req days
          = 100 * spec_shortage_ratio req stock
              * spec_time_urgency days (dict_get (map_of lead_times) resource_type 0)
              * dict_get (map_of clinical_criticality) resource_type 0.5)"
proof -
  let ?u = "spec_time_urgency days (dict_get (map_of lead_times) resource_type 0)"
  let ?k = "dict_get (map_of clinical_criticality) resource_type 0.5"
  let ?s = "(if req > 0 then max 0 (of_int (req - stock) / of_int req) else 0) :: real"
  have s0: "0 \<le> ?s" by simp
  have u: "0 \<le> ?u" "?u \<le> 1" using time_urgency_bounds by auto
  have k: "0 \<le> ?k" "?k \<le> 1" using criticality_bounds by auto
  have nonneg: "0 \<le> 100 * ?s * ?u * ?k" using s0 u(1) k(1) by simp
  have range: "0 \<le> calculate_resource_priority resource_type stock req days
      \<and> calculate_resource_priority resource_type stock req days \<le> 100"
    using nonneg by (simp only: priority_unfold) simp
  have eq: "calculate_resource_priority resource_type stock req days
          = 100 * spec_shortage_ratio req stock * ?u * ?k" if h: "0 \<le> stock \<and> 0 \<le> req"
  proof -
    have same: "?s = spec_shortage_ratio req stock"
      using h by (simp add: spec_shortage_ratio_def)
    have sb: "0 \<le> spec_shortage_ratio req stock" "spec_shortage_ratio req stock \<le> 1"
      using shortage_ratio_bounds[of stock req] h by auto
    have "100 * spec_shortage_ratio req stock * ?u * ?k \<le> 100"
      using prod3_bounds[OF sb u k] by simp
    then show ?thesis by (simp only: priority_unfold same)
  qed
  show ?thesis using range eq by blast
qed

text \<open>
  PPE kits with 200 in stock of 600 required, five days ahead of the surge: the score is
  100 * 2/3 * 4/7 * 0.85.
\<close>

theorem priority_score_formula_witness:
  "calculate_resource_priority ''ppe_kits'' 200 600 5
     = 100 * spec_shortage_ratio 600 200 * spec_time_urgency 5 2 * 0.85
   \<and> calculate_resource_priority ''ppe_kits'' 200 600 5 = 680 / 21"
proof -
  have h: "(0::int) \<le> 200 \<and> (0::int) \<le> 600" by simp
  have lt: "dict_get (map_of lead_times) ''ppe_kits'' 0 = 2"
    by (simp add: lead_times_def dict_get_def)
  have cc: "dict_get (map_of clinical_criticality) ''ppe_kits'' 0.5 = 0.85"
    by (simp add: clinical_criticality_def dict_get_def)
  have "calculate_resource_priority ''ppe_kits'' 200 600 5
     = 100 * spec_shortage_ratio 600 200
         * spec_time_urgency 5 (dict_get (map_of lead_times) ''ppe_kits'' 0)
         * dict_get (map_of clinical_criticality) ''ppe_kits'' 0.5"
    using priority_score_formula[of "''ppe_kits''" 200 600 5] h by blast
  then have e: "calculate_resource_priority ''ppe_kits'' 200 600 5
     = 100 * spec_shortage_ratio 600 200 * spec_time_urgency 5 2 * 0.85"
    by (simp only: lt cc)
  moreover have "100 * spec_shortage_ratio 600 200 * spec_time_urgency 5 2 * 0.85 = 680 / 21"
    by (simp add: spec_shortage_ratio_def spec_time_urgency_def)
  ultimately show ?thesis by simp
qed

subsection \<open>Procurement plan and readiness of the agent\<close>


lemma planned_mono: "planned d ci rs item \<Longrightarrow> set rs \<subseteq> set rs' \<Longrightarrow> planned d ci rs' item"
  by (auto simp add: planned_def)

lemma supply_loop_step:
  "supply_loop d ci (entry # rest) acc =
     (if max 0 (py_int (of_int (snd entry) * (1 + inventory_buffer)
                      - of_int (dict_get ci (fst entry) 0))) = 0
      then supply_loop d ci rest acc
      else case map_of lead_times (fst entry) of
             None \<Rightarrow> Inl (KeyError (fst entry))
           | Some lead_time \<Rightarrow>
               supply_loop d ci rest
                 (acc @
                    [\<lparr>p_supply = fst entry,
                      p_required = snd entry,
                      p_current_stock = dict_get ci (fst entry) 0,
                      p_to_order = max 0 (py_int (of_int (snd entry) * (1 + inventory_buffer)
                                      - of_int (dict_get ci (fst entry) 0))),
                      p_priority =
                        calculate_resource_priority (fst entry) (dict_get ci (fst entry) 0)
                          (snd entry) d,
                      p_lead_time_days = lead_time,
                      p_order_immediately =
                        (calculate_resource_priority (fst entry) (dict_get ci (fst entry) 0)
                           (snd entry) d > 80 \<or> \<not> d > lead_time),
                      p_delivery_possible = (d > lead_time)\<rparr>]))"
  by (simp only: supply_loop.simps Let_def)

lemma supply_loop_items:
  "supply_loop d ci rs acc = Inr plan \<Longrightarrow> item \<in> set plan \<Longrightarrow>
     item \<in> set acc \<or> planned d ci rs item"
proof (induction rs arbitrary: acc)
  case Nil
  then show ?case by simp
next
  case (Cons entry rest)
  let ?shortage = "max 0 (py_int (of_int (snd entry) * (1 + inventory_buffer)
                      - of_int (dict_get ci (fst entry) 0)))"
  show ?case
  proof (cases "?shortage = 0")
    case True
    have "supply_loop d ci (entry # rest) acc = supply_loop d ci rest acc"
      by (rule trans[OF supply_loop_step if_P[OF True]])
    then have "supply_loop d ci rest acc = Inr plan"
      using Cons.prems(1) by simp
    then have "item \<in> set acc \<or> planned d ci rest item"
      using Cons.IH Cons.prems(2) by blast
    then show ?thesis using planned_mono[of d ci rest item "entry # rest"] by auto
  next
    case False
    let ?new = "\<lambda>lead_time. \<lparr>p_supply = fst entry,
        p_required = snd entry,
        p_current_stock = dict_get ci (fst entry) 0,
        p_to_order = ?shortage,
        p_priority = calculate_resource_priority (fst entry) (dict_get ci (fst entry) 0) (snd entry) d,
        p_lead_time_days = lead_time,
        p_order_immediately =
          (calculate_resource_priority (fst entry) (dict_get ci (fst entry) 0) (snd entry) d > 80
             \<or> \<not> d > lead_time),
        p_delivery_possible = (d > lead_time)\<rparr>"
    have "supply_loop d ci (entry # rest) acc = (case map_of lead_times (fst entry) of
             None \<Rightarrow> Inl (KeyError (fst entry))
           | Some lead_time \<Rightarrow> supply_loop d ci rest (acc @ [?new lead_time]))"
      by (rule trans[OF supply_loop_step if_not_P[OF False]])
    then have c: "(case map_of lead_times (fst entry) of
             None \<Rightarrow> Inl (KeyError (fst entry))
           | Some lead_time \<Rightarrow> supply_loop d ci rest (acc @ [?new lead_time])) = Inr plan"
      using Cons.prems(1) by simp
    then obtain lead_time where lt: "map_of lead_times (fst entry) = Some lead_time"
      by (cases "map_of lead_times (fst entry)") simp_all
    have step: "supply_loop d ci rest (acc @ [?new lead_time]) = Inr plan"
      using c lt by simp
    have "item \<in> set (acc @ [?new lead_time]) \<or> planned d ci rest item"
      using Cons.IH[OF step Cons.prems(2)] .
    moreover have "planned d ci (entry # rest) (?new lead_time)"
      using False lt by (simp add: planned_def)
    ultimately show ?thesis using planned_mono[of d ci rest item "entry # rest"] by auto
  qed
qed

lemma supply_needs_items:
  assumes "Agent_calculate_supply_needs rs ci d = Inr plan" "item \<in> set plan"
  shows "planned d ci rs item"
proof -
  obtain raw where raw: "supply_loop d ci rs [] = Inr raw"
    and plan: "plan = sort_key (\<lambda>x. - p_priority x) raw"
    using assms(1) by (auto simp add: Agent_calculate_supply_needs_def split: sum.splits)
  have "item \<in> set raw" using assms(2) plan by simp
  then show ?thesis using supply_loop_items[OF raw] by auto
qed

lemma supply_loop_returns:
  "\<forall>entry\<in>set rs. fst entry \<in> fst ` set lead_times \<Longrightarrow> \<exists>plan. supply_loop d ci rs acc = Inr plan"
proof (induction rs arbitrary: acc)
  case Nil
  then show ?case by simp
next
  case (Cons entry rest)
  then have "fst entry \<in> fst ` set lead_times" by simp
  then obtain lead_time where "map_of lead_times (fst entry) = Some lead_time"
    by (metis domD dom_map_of_conv_image_fst)
  then show ?case using Cons by (simp only: supply_loop_step) simp
qed

text \<open>
  C8. Whenever the supply planner returns a plan, every item of it is marked
  \<open>order_immediately\<close> exactly when its priority exceeds 80 or delivery is not possible,
  delivery being possible exactly when the surge is further away than the item's lead time;
  so an item whose lead time is not shorter than the days left is always ordered
  immediately. The lead time is the table's entry for the supply and the priority is the
  priority score of the item's supply, stock and requirement.
\<close>

theorem order_immediately_rule:
  assumes "Agent_calculate_supply_needs required_supplies current_inventory days = Inr plan"
    and "item \<in> set plan"
  shows "p_order_immediately item = (p_priority item > 80 \<or> \<not> p_delivery_possible item)
     \<and> p_delivery_possible item = (days > p_lead_time_days item)
     \<and> (days \<le> p_lead_time_days item \<longrightarrow> p_order_immediately item)
     \<and> map_of lead_times (p_supply item) = Some (p_lead_time_days item)
     \<and> p_priority item =
         calculate_resource_priority (p_supply item) (p_current_stock item) (p_required item) days"
  using supply_needs_items[OF assms] by (auto simp add: planned_def)

lemma py_int_nonpos: "x \<le> 0 \<Longrightarrow> py_int x \<le> 0"
  by (auto simp add: py_int_def ceiling_le_zero)

text \<open>
  C10. Whenever the supply planner returns a plan, every item of it has a positive
  \<open>to_order\<close>, and an entry of \<open>required_supplies\<close> whose stock covers the buffered
  requirement (\<open>max(0, required * 1.15 - current) = 0\<close>) has no item in the plan.
\<close>

theorem procurement_plan_orders_positive:
  assumes "Agent_calculate_supply_needs required_supplies current_inventory days = Inr plan"
  shows "(\<forall>item\<in>set plan. 0 < p_to_order item)
     \<and> (\<forall>entry\<in>set required_supplies.
          max 0 (of_int (snd entry) * 1.15 - of_int (dict_get current_inventory (fst entry) 0)) = (0::real)
          \<longrightarrow> \<not> (\<exists>item\<in>set plan. p_supply item = fst entry \<and> p_required item = snd entry))"
proof (intro conjI ballI impI)
  fix item assume "item \<in> set plan"
  then have "planned days current_inventory required_supplies item"
    using supply_needs_items[OF assms] by blast
  then show "0 < p_to_order item" by (auto simp add: planned_def)
next
  fix entry
  assume cov: "max 0 (of_int (snd entry) * 1.15 - of_int (dict_get current_inventory (fst entry) 0)) = (0::real)"
  show "\<not> (\<exists>item\<in>set plan. p_supply item = fst entry \<and> p_required item = snd entry)"
  proof
    assume "\<exists>item\<in>set plan. p_supply item = fst entry \<and> p_required item = snd entry"
    then obtain item where item: "item \<in> set plan" "p_supply item = fst entry" "p_required item = snd entry"
      by blast
    have pl: "planned days current_inventory required_supplies item"
      using supply_needs_items[OF assms item(1)] .
    have le: "of_int (snd entry) * (1 + inventory_buffer) - of_int (dict_get current_inventory (fst entry) 0) \<le> (0::real)"
      using cov by (simp add: inventory_buffer_def)
    have "p_to_order item = 0"
      using pl item(2,3) py_int_nonpos[OF le] by (simp add: planned_def)
    then show False using pl by (simp add: planned_def)
  qed
qed

lemma lead_time_ppe: "map_of lead_times ''ppe_kits'' = Some 2"
  by (simp add: lead_times_def)

lemma criticality_ppe: "map_of clinical_criticality ''ppe_kits'' = Some 0.85"
  by (simp add: clinical_criticality_def)

lemma ppe_priority_1: "calculate_resource_priority ''ppe_kits'' 200 600 1 = 170 / 3"
  by (simp add: calculate_resource_priority_def lead_time_ppe criticality_ppe dict_get_def Let_def)

lemma scenario5_loop:
  "supply_loop 1 [''ppe_kits'' \<mapsto> 200] [(''ppe_kits'', 600)] []
   = Inr [\<lparr>p_supply = ''ppe_kits'', p_required = 600, p_current_stock = 200, p_to_order = 490,
           p_priority = 170 / 3, p_lead_time_days = 2, p_order_immediately = True,
           p_delivery_possible = False\<rparr>]"
  by (simp add: Let_def dict_get_def inventory_buffer_def py_int_def ppe_priority_1 lead_time_ppe)

lemma scenario5_eval:
  "Agent_calculate_supply_needs [(''ppe_kits'', 600)] [''ppe_kits'' \<mapsto> 200] 1
   = Inr [\<lparr>p_supply = ''ppe_kits'', p_required = 600, p_current_stock = 200, p_to_order = 490,
           p_priority = 170 / 3, p_lead_time_days = 2, p_order_immediately = True,
           p_delivery_possible = False\<rparr>]"
  by (simp only: Agent_calculate_supply_needs_def scenario5_loop) simp

text \<open>
  One day before the surge, PPE kits (lead time two days) with priority 56.7 are ordered
  immediately.
\<close>

theorem order_immediately_rule_witness:
  "Agent_calculate_supply_needs [(''ppe_kits'', 600)] [''ppe_kits'' \<mapsto> 200] 1
   = Inr [\<lparr>p_supply = ''ppe_kits'', p_required = 600, p_current_stock = 200, p_to_order = 490,
           p_priority = 170 / 3, p_lead_time_days = 2, p_order_immediately = True,
           p_delivery_possible = False\<rparr>]
   \<and> p_order_immediately
       \<lparr>p_supply = ''ppe_kits'', p_required = 600, p_current_stock = 200, p_to_order = 490,
        p_priority = 170 / 3, p_lead_time_days = 2, p_order_immediately = True,
        p_delivery_possible = False\<rparr>
   \<and> \<not> (170 / 3 > (80::real))"
proof -
  let ?item = "\<lparr>p_supply = ''ppe_kits'', p_required = 600, p_current_stock = 200, p_to_order = 490,
           p_priority = 170 / 3, p_lead_time_days = 2, p_order_immediately = True,
           p_delivery_possible = False\<rparr>"
  have mem: "?item \<in> set [?item]" by simp
  have late: "(1::int) \<le> p_lead_time_days ?item" by simp
  have "p_order_immediately ?item"
    using order_immediately_rule[OF scenario5_eval mem] late by blast
  then show ?thesis using scenario5_eval by simp
qed

lemma ppe_priority_5: "calculate_resource_priority ''ppe_kits'' 200 600 5 = 680 / 21"
  by (simp add: calculate_resource_priority_def lead_time_ppe criticality_ppe dict_get_def Let_def)

lemma covered_item_loop:
  "supply_loop 5 [''ppe_kits'' \<mapsto> 200, ''oxygen_liters'' \<mapsto> 100]
      [(''ppe_kits'', 600), (''oxygen_liters'', 50)] []
   = Inr [\<lparr>p_supply = ''ppe_kits'', p_required = 600, p_current_stock = 200, p_to_order = 490,
           p_priority = 680 / 21, p_lead_time_days = 2, p_order_immediately = False,
           p_delivery_possible = True\<rparr>]"
  by (simp add: Let_def dict_get_def inventory_buffer_def py_int_def ppe_priority_5 lead_time_ppe)

lemma covered_item_eval:
  "Agent_calculate_supply_needs [(''ppe_kits'', 600), (''oxygen_liters'', 50)]
      [''ppe_kits'' \<mapsto> 200, ''oxygen_liters'' \<mapsto> 100] 5
   = Inr [\<lparr>p_supply = ''ppe_kits'', p_required = 600, p_current_stock = 200, p_to_order = 490,
           p_priority = 680 / 21, p_lead_time_days = 2, p_order_immediately = False,
           p_delivery_possible = True\<rparr>]"
  by (simp only: Agent_calculate_supply_needs_def covered_item_loop) simp

text \<open>
  Of PPE kits (600 required, 200 in stock) and oxygen (50 required, 100 in stock) only the
  PPE kits are in the plan, with 490 to order.
\<close>

theorem procurement_plan_orders_positive_witness:
  "0 < p_to_order
       \<lparr>p_supply = ''ppe_kits'', p_required = 600, p_current_stock = 200, p_to_order = 490,
        p_priority = 680 / 21, p_lead_time_days = 2, p_order_immediately = False,
        p_delivery_possible = True\<rparr>
   \<and> \<not> (\<exists>item\<in>set
          [\<lparr>p_supply = ''ppe_kits'', p_required = 600, p_current_stock = 200, p_to_order = 490,
            p_priority = 680 / 21, p_lead_time_days = 2, p_order_immediately = False,
            p_delivery_possible = True\<rparr>].
        p_supply item = ''oxygen_liters'' \<and> p_required item = 50)"
proof -
  let ?item = "\<lparr>p_supply = ''ppe_kits'', p_required = 600, p_current_stock = 200, p_to_order = 490,
           p_priority = 680 / 21, p_lead_time_days = 2, p_order_immediately = False,
           p_delivery_possible = True\<rparr>"
  let ?rs = "[(''ppe_kits'', 600), (''oxygen_liters'', 50::int)]"
  let ?ci = "[''ppe_kits'' \<mapsto> 200, ''oxygen_liters'' \<mapsto> 100::int]"
  have mem: "?item \<in> set [?item]" by simp
  have entry: "(''oxygen_liters'', 50) \<in> set ?rs" by simp
  have cov: "max 0 (of_int (snd (''oxygen_liters'', 50::int)) * 1.15
        - of_int (dict_get ?ci (fst (''oxygen_liters'', 50::int)) 0)) = (0::real)"
    by (simp add: dict_get_def)
  show ?thesis
    using procurement_plan_orders_positive[OF covered_item_eval] mem entry cov
    by (metis fst_conv snd_conv)
qed

text \<open>
  C9. The claim is that every coverage is capped at 100 and that the readiness score lies in
  [0, 100]. The supply coverages are capped, the staff coverages are not: with ten doctors,
  nurses and support staff required and twenty of each available, every staff coverage is
  200, no supply is short, and the readiness score is 0.6 * 200 + 0.4 * 100 = 160.
\<close>

theorem readiness_score_exceeds_100:
  "generate_comprehensive_resource_plan
      [''doctors_needed'' \<mapsto> 10, ''nurses_needed'' \<mapsto> 10, ''support_staff_needed'' \<mapsto> 10]
      [''doctors'' \<mapsto> 20, ''nurses'' \<mapsto> 20, ''support_staff'' \<mapsto> 20] 5
   = Inr \<lparr>staff_allocation =
            [(''doctors'', \<lparr>s_required = 10, s_available = 20, s_to_deploy = 0, s_coverage = 200\<rparr>),
             (''nurses'', \<lparr>s_required = 10, s_available = 20, s_to_deploy = 0, s_coverage = 200\<rparr>),
             (''support_staff'',
                \<lparr>s_required = 10, s_available = 20, s_to_deploy = 0, s_coverage = 200\<rparr>)],
          supply_procurement = [],
          readiness_score = 160\<rparr>"
  by (simp add: generate_comprehensive_resource_plan_def calculate_staff_needs_def
      Agent_calculate_supply_needs_def calculate_readiness_score_def np_mean_def
      Let_def dict_get_def inventory_buffer_def py_int_def py_round_def round_half_even_def)


subsection \<open>Pooling across hospitals\<close>

lemma dict_get_update:
  "dict_get (map_of (AList.update k v al)) k' d = (if k' = k then v else dict_get (map_of al) k' d)"
  by (simp add: dict_get_def update_conv')

lemma dict_get_absent: "k \<notin> fst ` set al \<Longrightarrow> dict_get (map_of al) k d = d"
proof -
  assume "k \<notin> fst ` set al"
  then have "map_of al k = None" by (simp add: map_of_eq_None_iff)
  then show ?thesis by (simp add: dict_get_def)
qed

lemma analyze_hospitals_flat: "foldl analyze_hospital s hs = foldl step s (resource_pairs hs)"
proof (induction hs arbitrary: s)
  case Nil
  then show ?case by (simp add: resource_pairs_def)
next
  case (Cons h hs)
  have "foldl step s (map (Pair h) (map fst (required_resources h))) = analyze_hospital s h"
    by (simp add: analyze_hospital_def foldl_map step_def)
  then show ?case using Cons.IH by (simp add: resource_pairs_def)
qed

lemma step_total_requirements:
  "total_requirements (step s p) =
     AList.update (snd p)
       (dict_get (map_of (total_requirements s)) (snd p) 0
          + dict_get (map_of (required_resources (fst p))) (snd p) 0)
       (total_requirements s)"
  by (simp add: step_def analyze_resource_def Let_def)

lemma step_total_available:
  "total_available (step s p) =
     AList.update (snd p)
       (dict_get (map_of (total_available s)) (snd p) 0
          + dict_get (available_resources (fst p)) (snd p) 0)
       (total_available s)"
  by (simp add: step_def analyze_resource_def Let_def)

lemma step_surplus:
  "hospitals_with_surplus (step s p) = table_step surplus_amount (hospitals_with_surplus s) p"
  by (simp add: step_def analyze_resource_def Let_def table_step_def surplus_amount_def)

lemma step_shortage:
  "hospitals_with_shortage (step s p) = table_step shortage_amount (hospitals_with_shortage s) p"
  by (simp add: step_def analyze_resource_def Let_def table_step_def shortage_amount_def)

lemma fold_surplus:
  "hospitals_with_surplus (foldl step s ps)
     = foldl (table_step surplus_amount) (hospitals_with_surplus s) ps"
  by (induction ps arbitrary: s) (simp_all add: step_surplus)

lemma fold_shortage:
  "hospitals_with_shortage (foldl step s ps)
     = foldl (table_step shortage_amount) (hospitals_with_shortage s) ps"
  by (induction ps arbitrary: s) (simp_all add: step_shortage)

lemma fold_total_requirements:
  "dict_get (map_of (total_requirements (foldl step s ps))) rt 0
     = dict_get (map_of (total_requirements s)) rt 0
       + (\<Sum>p\<leftarrow>ps. if snd p = rt
                  then dict_get (map_of (required_resources (fst p))) rt 0 else 0)"
proof (induction ps arbitrary: s)
  case Nil
  then show ?case by simp
next
  case (Cons p ps)
  have "dict_get (map_of (total_requirements (step s p))) rt 0
      = dict_get (map_of (total_requirements s)) rt 0
        + (if snd p = rt then dict_get (map_of (required_resources (fst p))) rt 0 else 0)"
    by (simp add: step_total_requirements dict_get_update)
  then show ?case using Cons.IH[of "step s p"] by simp
qed

lemma fold_total_available:
  "dict_get (map_of (total_available (foldl step s ps))) rt 0
     = dict_get (map_of (total_available s)) rt 0
       + (\<Sum>p\<leftarrow>ps. if snd p = rt then dict_get (available_resources (fst p)) rt 0 else 0)"
proof (induction ps arbitrary: s)
  case Nil
  then show ?case by simp
next
  case (Cons p ps)
  have "dict_get (map_of (total_available (step s p))) rt 0
      = dict_get (map_of (total_available s)) rt 0
        + (if snd p = rt then dict_get (available_resources (fst p)) rt 0 else 0)"
    by (simp add: step_total_available dict_get_update)
  then show ?case using Cons.IH[of "step s p"] by simp
qed

lemma fold_keys_requirements:
  "fst ` set (total_requirements (foldl step s ps))
     = fst ` set (total_requirements s) \<union> snd ` set ps"
proof (induction ps arbitrary: s)
  case Nil
  then show ?case by simp
next
  case (Cons p ps)
  have "fst ` set (total_requirements (step s p)) = {snd p} \<union> fst ` set (total_requirements s)"
    by (simp add: step_total_requirements dom_update)
  then show ?case using Cons.IH[of "step s p"] by auto
qed

lemma fold_keys_available:
  "fst ` set (total_available (foldl step s ps))
     = fst ` set (total_available s) \<union> snd ` set ps"
proof (induction ps arbitrary: s)
  case Nil
  then show ?case by simp
next
  case (Cons p ps)
  have "fst ` set (total_available (step s p)) = {snd p} \<union> fst ` set (total_available s)"
    by (simp add: step_total_available dom_update)
  then show ?case using Cons.IH[of "step s p"] by auto
qed

lemma has_key_record_amount:
  "has_key (record_amount h r v table) h' r' \<longleftrightarrow> has_key table h' r' \<or> (h' = h \<and> r' = r)"
  by (auto simp add: has_key_def record_amount_def dict_get_update dom_update)

lemma has_key_table_step:
  "has_key (table_step amount table p) h r
     \<longleftrightarrow> has_key table h r \<or> (pair_key p = (h, r) \<and> 0 < amount p)"
  by (auto simp add: table_step_def has_key_record_amount pair_key_def)

lemma has_key_fold:
  "has_key (foldl (table_step amount) table ps) h r
     \<longleftrightarrow> has_key table h r \<or> (\<exists>p\<in>set ps. pair_key p = (h, r) \<and> 0 < amount p)"
proof (induction ps arbitrary: table)
  case Nil
  then show ?case by simp
next
  case (Cons p ps)
  show ?case using Cons.IH[of "table_step amount table p"]
    by (auto simp add: has_key_table_step)
qed

lemma distinct_table_step:
  "distinct (map fst table) \<Longrightarrow> distinct (map fst (table_step amount table p))"
  by (simp add: table_step_def record_amount_def distinct_update)

lemma distinct_fold:
  "distinct (map fst table) \<Longrightarrow> distinct (map fst (foldl (table_step amount) table ps))"
  by (induction ps arbitrary: table) (simp_all add: distinct_table_step)

lemma sum_list_update:
  fixes f :: "'v \<Rightarrow> int"
  shows "(\<Sum>e\<leftarrow>AList.update k v al. f (snd e))
     = (\<Sum>e\<leftarrow>al. f (snd e)) + f v - (case map_of al k of None \<Rightarrow> 0 | Some d \<Rightarrow> f d)"
  by (induction al) auto

lemma table_sum_record_amount:
  assumes "\<not> has_key table h r"
  shows "table_sum rt (record_amount h r v table)
     = table_sum rt table + (if r = rt then v else 0)"
proof -
  let ?old = "dict_get (map_of table) h []"
  let ?f = "\<lambda>d. dict_get (map_of d) rt (0::int)"
  have old: "(case map_of table h of None \<Rightarrow> 0 | Some d \<Rightarrow> ?f d) = ?f ?old"
    by (cases "map_of table h") (simp_all add: dict_get_def)
  have absent: "r \<notin> fst ` set ?old" using assms by (simp add: has_key_def)
  have new: "?f (AList.update r v ?old) = (if r = rt then v else ?f ?old)"
    by (simp add: dict_get_update)
  have zero: "r = rt \<Longrightarrow> ?f ?old = 0" using absent dict_get_absent[of r ?old 0] by simp
  have "table_sum rt (record_amount h r v table)
      = table_sum rt table + ?f (AList.update r v ?old) - ?f ?old"
    unfolding table_sum_def record_amount_def
    using sum_list_update[of ?f h "AList.update r v ?old" table] old by simp
  then show ?thesis using new zero by auto
qed

lemma table_sum_fold:
  assumes "distinct (map pair_key ps)"
    and "\<forall>p\<in>set ps. \<not> has_key table (hospital_id (fst p)) (snd p)"
  shows "table_sum rt (foldl (table_step amount) table ps)
     = table_sum rt table + (\<Sum>p\<leftarrow>ps. if snd p = rt then max 0 (amount p) else 0)"
  using assms
proof (induction ps arbitrary: table)
  case Nil
  then show ?case by simp
next
  case (Cons p ps)
  let ?t = "table_step amount table p"
  have fresh: "\<not> has_key table (hospital_id (fst p)) (snd p)" using Cons.prems(2) by simp
  have one: "table_sum rt ?t = table_sum rt table + (if snd p = rt then max 0 (amount p) else 0)"
  proof (cases "0 < amount p")
    case True
    then have "?t = record_amount (hospital_id (fst p)) (snd p) (amount p) table"
      by (simp add: table_step_def)
    then have "table_sum rt ?t = table_sum rt table + (if snd p = rt then amount p else 0)"
      using table_sum_record_amount[OF fresh, of rt "amount p"] by (simp only:)
    moreover have "max 0 (amount p) = amount p" using True by simp
    ultimately show ?thesis by (simp only:)
  next
    case False
    then have "?t = table" by (simp add: table_step_def)
    moreover have "max 0 (amount p) = 0" using False by simp
    ultimately show ?thesis by simp
  qed
  have d: "distinct (map pair_key ps)" using Cons.prems(1) by simp
  have "\<forall>q\<in>set ps. \<not> has_key ?t (hospital_id (fst q)) (snd q)"
  proof
    fix q assume q: "q \<in> set ps"
    have "pair_key p \<noteq> pair_key q" using Cons.prems(1) q by auto
    then have "pair_key p \<noteq> (hospital_id (fst q), snd q)" by (simp add: pair_key_def)
    moreover have "\<not> has_key table (hospital_id (fst q)) (snd q)" using Cons.prems(2) q by simp
    ultimately show "\<not> has_key ?t (hospital_id (fst q)) (snd q)"
      by (simp add: has_key_table_step)
  qed
  then have "table_sum rt (foldl (table_step amount) ?t ps)
      = table_sum rt ?t + (\<Sum>p\<leftarrow>ps. if snd p = rt then max 0 (amount p) else 0)"
    using Cons.IH[OF d] by blast
  then show ?case using one by simp
qed

lemma holders_sum: "sum_list (map snd (holders rt table)) = table_sum rt table"
proof (induction table)
  case Nil
  then show ?case by (simp add: holders_def table_sum_def)
next
  case (Cons e table)
  have "rt \<notin> fst ` set (snd e) \<Longrightarrow> dict_get (map_of (snd e)) rt 0 = (0::int)"
    by (rule dict_get_absent)
  then show ?case using Cons.IH by (auto simp add: holders_def table_sum_def)
qed

lemma holders_nonempty:
  assumes "distinct (map fst table)"
  shows "holders rt table \<noteq> [] \<longleftrightarrow> (\<exists>h. has_key table h rt)"
proof
  assume "holders rt table \<noteq> []"
  then obtain e where e: "e \<in> set table" "rt \<in> fst ` set (snd e)"
    by (auto simp add: holders_def filter_empty_conv)
  have "map_of table (fst e) = Some (snd e)" using assms e(1) by simp
  then have "has_key table (fst e) rt" using e(2) by (simp add: has_key_def dict_get_def)
  then show "\<exists>h. has_key table h rt" by blast
next
  assume "\<exists>h. has_key table h rt"
  then obtain h where h: "rt \<in> fst ` set (dict_get (map_of table) h [])"
    by (auto simp add: has_key_def)
  then obtain d where d: "map_of table h = Some d" "rt \<in> fst ` set d"
    by (cases "map_of table h") (simp_all add: dict_get_def)
  then have "(h, d) \<in> set table" by (simp add: map_of_SomeD)
  then have "\<exists>e\<in>set table. rt \<in> fst ` set (snd e)" using d(2) by force
  then show "holders rt table \<noteq> []"
    by (simp add: holders_def filter_empty_conv)
qed

lemma pairs_member:
  "p \<in> set (resource_pairs hs) \<longleftrightarrow> fst p \<in> set hs \<and> listed (fst p) (snd p)"
  by (cases p) (auto simp add: resource_pairs_def listed_def)

lemma pairs_Cons:
  "resource_pairs (h # hs) = map (Pair h) (map fst (required_resources h)) @ resource_pairs hs"
  by (simp add: resource_pairs_def)

lemma distinct_pairs:
  assumes "distinct (map hospital_id hs)"
    and "\<forall>h\<in>set hs. distinct (map fst (required_resources h))"
  shows "distinct (map pair_key (resource_pairs hs))"
  using assms
proof (induction hs)
  case Nil
  then show ?case by (simp add: resource_pairs_def)
next
  case (Cons h hs)
  let ?own = "map (Pair h) (map fst (required_resources h))"
  have own: "map pair_key ?own = map (Pair (hospital_id h)) (map fst (required_resources h))"
    by (simp add: pair_key_def comp_def)
  have "distinct (map fst (required_resources h))" using Cons.prems(2) by simp
  then have d1: "distinct (map pair_key ?own)"
    unfolding own by (simp add: distinct_map inj_on_def)
  have d2: "distinct (map pair_key (resource_pairs hs))"
    using Cons.IH Cons.prems by simp
  have "hospital_id h \<notin> hospital_id ` set hs" using Cons.prems(1) by simp
  then have "\<forall>q\<in>set (resource_pairs hs). fst (pair_key q) \<noteq> hospital_id h"
  proof (intro ballI)
    fix q assume no: "hospital_id h \<notin> hospital_id ` set hs" and "q \<in> set (resource_pairs hs)"
    then have "fst q \<in> set hs" by (simp add: pairs_member)
    then have "hospital_id (fst q) \<in> hospital_id ` set hs" by (rule imageI)
    then show "fst (pair_key q) \<noteq> hospital_id h" using no by (auto simp add: pair_key_def)
  qed
  moreover have "\<forall>q\<in>set ?own. fst (pair_key q) = hospital_id h"
    by (auto simp add: pair_key_def)
  ultimately have "set (map pair_key ?own) \<inter> set (map pair_key (resource_pairs hs)) = {}"
    by fastforce
  then show ?case using d1 d2 by (simp only: pairs_Cons map_append distinct_append)
qed

lemma sum_indicator:
  "distinct ks \<Longrightarrow> (\<Sum>r\<leftarrow>ks. if r = rt then c else 0) = (if rt \<in> set ks then c else (0::int))"
  by (induction ks) auto

lemma sum_pairs:
  assumes "\<forall>h\<in>set hs. distinct (map fst (required_resources h))"
  shows "(\<Sum>p\<leftarrow>resource_pairs hs. if snd p = rt then g (fst p) else 0)
     = (\<Sum>h\<leftarrow>hs. if listed h rt then g h else (0::int))"
  using assms
proof (induction hs)
  case Nil
  then show ?case by (simp add: resource_pairs_def)
next
  case (Cons h hs)
  have d: "distinct (map fst (required_resources h))" using Cons.prems by simp
  have "(\<Sum>p\<leftarrow>map (Pair h) (map fst (required_resources h)). if snd p = rt then g (fst p) else 0)
      = (\<Sum>r\<leftarrow>map fst (required_resources h). if r = rt then g h else 0)"
    by (simp add: comp_def cong: if_cong)
  also have "\<dots> = (if listed h rt then g h else 0)"
    using sum_indicator[OF d, of rt "g h"] by (simp add: listed_def)
  finally have own:
    "(\<Sum>p\<leftarrow>map (Pair h) (map fst (required_resources h)). if snd p = rt then g (fst p) else 0)
      = (if listed h rt then g h else 0)" .
  have rest: "(\<Sum>p\<leftarrow>resource_pairs hs. if snd p = rt then g (fst p) else 0)
     = (\<Sum>h\<leftarrow>hs. if listed h rt then g h else 0)"
    using Cons.IH Cons.prems by simp
  show ?case using own rest by (simp only: pairs_Cons map_append sum_list_append list.map sum_list.Cons)
qed

lemma required_of_unlisted: "\<not> listed h rt \<Longrightarrow> required_of h rt = 0"
  using dict_get_absent[of rt "required_resources h" 0] by (simp add: listed_def required_of_def)

lemma required_of_if: "(if listed h rt then required_of h rt else 0) = required_of h rt"
  using required_of_unlisted by auto

lemma available_of_if:
  "(if listed h rt then dict_get (available_resources h) rt 0 else 0) = available_of h rt"
  by (simp add: available_of_def)

lemma surplus_of_if:
  "(if listed h rt then max 0 (surplus_amount (h, rt)) else 0) = surplus_of h rt"
  using required_of_unlisted[of h rt]
  by (auto simp add: surplus_of_def available_of_def required_of_def surplus_amount_def)

lemma shortage_of_if:
  "(if listed h rt then max 0 (shortage_amount (h, rt)) else 0) = shortage_of h rt"
  using required_of_unlisted[of h rt]
  by (auto simp add: shortage_of_def available_of_def required_of_def shortage_amount_def)

lemma surplus_positive_iff: "0 < surplus_of h rt \<longleftrightarrow> listed h rt \<and> 0 < surplus_amount (h, rt)"
  using surplus_of_if[of h rt] by (auto split: if_splits)

lemma shortage_positive_iff: "0 < shortage_of h rt \<longleftrightarrow> listed h rt \<and> 0 < shortage_amount (h, rt)"
  using shortage_of_if[of h rt] by (auto split: if_splits)

lemma network_loop_result:
  assumes "\<forall>k\<in>set ks. k \<in> fst ` set treq \<and> k \<in> fst ` set tav"
  shows "\<exists>np. network_loop ks treq tav acc = Inr np
     \<and> (\<forall>rt. dict_get (map_of np) rt 0 =
           (if rt \<in> set ks \<and> 0 < dict_get (map_of treq) rt 0 - dict_get (map_of tav) rt 0
            then dict_get (map_of treq) rt 0 - dict_get (map_of tav) rt 0
            else dict_get (map_of acc) rt 0))"
  using assms
proof (induction ks arbitrary: acc)
  case Nil
  then show ?case by simp
next
  case (Cons k ks)
  obtain r where r: "map_of treq k = Some r"
    using Cons.prems by (cases "map_of treq k") (auto simp add: map_of_eq_None_iff)
  obtain a where a: "map_of tav k = Some a"
    using Cons.prems by (cases "map_of tav k") (auto simp add: map_of_eq_None_iff)
  let ?acc = "if max 0 (r - a) > 0 then AList.update k (max 0 (r - a)) acc else acc"
  have unfold: "network_loop (k # ks) treq tav acc = network_loop ks treq tav ?acc"
    by (simp add: r a Let_def)
  have rest: "\<forall>k\<in>set ks. k \<in> fst ` set treq \<and> k \<in> fst ` set tav" using Cons.prems by simp
  obtain np where np: "network_loop ks treq tav ?acc = Inr np"
    and val: "\<forall>rt. dict_get (map_of np) rt 0 =
           (if rt \<in> set ks \<and> 0 < dict_get (map_of treq) rt 0 - dict_get (map_of tav) rt 0
            then dict_get (map_of treq) rt 0 - dict_get (map_of tav) rt 0
            else dict_get (map_of ?acc) rt 0)"
    using Cons.IH[OF rest, of ?acc] by blast
  have rk: "dict_get (map_of treq) k 0 = r" by (simp add: dict_get_def r)
  have ak: "dict_get (map_of tav) k 0 = a" by (simp add: dict_get_def a)
  have acc: "\<And>rt. dict_get (map_of ?acc) rt 0 =
      (if rt = k \<and> 0 < r - a then r - a else dict_get (map_of acc) rt 0)"
    by (auto simp add: dict_get_update)
  have "\<forall>rt. dict_get (map_of np) rt 0 =
           (if rt \<in> set (k # ks) \<and> 0 < dict_get (map_of treq) rt 0 - dict_get (map_of tav) rt 0
            then dict_get (map_of treq) rt 0 - dict_get (map_of tav) rt 0
            else dict_get (map_of acc) rt 0)"
  proof
    fix rt
    show "dict_get (map_of np) rt 0 =
           (if rt \<in> set (k # ks) \<and> 0 < dict_get (map_of treq) rt 0 - dict_get (map_of tav) rt 0
            then dict_get (map_of treq) rt 0 - dict_get (map_of tav) rt 0
            else dict_get (map_of acc) rt 0)"
      using val[rule_format, of rt] acc[of rt] rk ak by (cases "rt = k") auto
  qed
  then show ?case using unfold np by simp
qed

lemma pooling_for_elem:
  assumes "p \<in> set (pooling_recommendation_for s rt)"
  shows "r_resource p = rt
     \<and> r_can_transfer p = min (table_sum rt (hospitals_with_surplus s))
                              (table_sum rt (hospitals_with_shortage s))"
  using assms
  by (auto simp add: pooling_recommendation_for_def Let_def holders_sum split: if_splits)

lemma pooling_for_nonempty:
  "pooling_recommendation_for s rt \<noteq> []
     \<longleftrightarrow> holders rt (hospitals_with_surplus s) \<noteq> [] \<and> holders rt (hospitals_with_shortage s) \<noteq> []"
  by (simp add: pooling_recommendation_for_def Let_def)

lemma pooling_exists_iff:
  "(\<exists>p\<in>set (concat (map (pooling_recommendation_for s) ks)). r_resource p = rt)
     \<longleftrightarrow> rt \<in> set ks \<and> pooling_recommendation_for s rt \<noteq> []"
proof
  assume "\<exists>p\<in>set (concat (map (pooling_recommendation_for s) ks)). r_resource p = rt"
  then obtain p k where k: "k \<in> set ks" and p: "p \<in> set (pooling_recommendation_for s k)"
    and r: "r_resource p = rt" by auto
  have "k = rt" using pooling_for_elem[OF p] r by simp
  then show "rt \<in> set ks \<and> pooling_recommendation_for s rt \<noteq> []" using k p by auto
next
  assume a: "rt \<in> set ks \<and> pooling_recommendation_for s rt \<noteq> []"
  then obtain p where p: "p \<in> set (pooling_recommendation_for s rt)"
    by (cases "pooling_recommendation_for s rt") auto
  have "r_resource p = rt" using pooling_for_elem[OF p] by simp
  then show "\<exists>p\<in>set (concat (map (pooling_recommendation_for s) ks)). r_resource p = rt"
    using a p by auto
qed

lemma dict_get_empty: "dict_get (map_of []) k (0::int) = 0"
  by (simp add: dict_get_def)

lemma has_key_empty: "\<not> has_key [] h rt"
  by (simp add: has_key_def dict_get_def)

lemma analyzed_state:
  "analyze_hospitals hs =
     foldl step \<lparr>total_requirements = [], total_available = [],
        hospitals_with_surplus = [], hospitals_with_shortage = []\<rparr> (resource_pairs hs)"
  by (simp add: analyze_hospitals_def analyze_hospitals_flat)

lemma analyzed_keys:
  "fst ` set (total_requirements (analyze_hospitals hs)) = snd ` set (resource_pairs hs)"
  "fst ` set (total_available (analyze_hospitals hs)) = snd ` set (resource_pairs hs)"
  by (simp_all add: analyzed_state fold_keys_requirements fold_keys_available)

lemma analyzed_total_requirements:
  assumes "\<forall>h\<in>set hs. distinct (map fst (required_resources h))"
  shows "dict_get (map_of (total_requirements (analyze_hospitals hs))) rt 0
     = (\<Sum>h\<leftarrow>hs. required_of h rt)"
proof -
  have "dict_get (map_of (total_requirements (analyze_hospitals hs))) rt 0
      = (\<Sum>p\<leftarrow>resource_pairs hs. if snd p = rt then required_of (fst p) rt else 0)"
    using fold_total_requirements[of _ "resource_pairs hs" rt] dict_get_empty[of rt]
    by (simp add: analyzed_state required_of_def cong: if_cong)
  also have "\<dots> = (\<Sum>h\<leftarrow>hs. if listed h rt then required_of h rt else 0)"
    using sum_pairs[OF assms, of rt "\<lambda>h. required_of h rt"] .
  finally show ?thesis by (simp only: required_of_if)
qed

lemma analyzed_total_available:
  assumes "\<forall>h\<in>set hs. distinct (map fst (required_resources h))"
  shows "dict_get (map_of (total_available (analyze_hospitals hs))) rt 0
     = (\<Sum>h\<leftarrow>hs. available_of h rt)"
proof -
  have "dict_get (map_of (total_available (analyze_hospitals hs))) rt 0
      = (\<Sum>p\<leftarrow>resource_pairs hs. if snd p = rt
             then dict_get (available_resources (fst p)) rt 0 else 0)"
    using fold_total_available[of _ "resource_pairs hs" rt] dict_get_empty[of rt]
    by (simp add: analyzed_state)
  also have "\<dots> = (\<Sum>h\<leftarrow>hs. if listed h rt then dict_get (available_resources h) rt 0 else 0)"
    using sum_pairs[OF assms, of rt "\<lambda>h. dict_get (available_resources h) rt 0"] .
  finally show ?thesis by (simp only: available_of_if)
qed

lemma amount_at: "snd p = rt \<Longrightarrow> amount p = amount (fst p, rt)"
  by (cases p) simp

lemma analyzed_surplus_sum:
  assumes "distinct (map hospital_id hs)"
    and "\<forall>h\<in>set hs. distinct (map fst (required_resources h))"
  shows "table_sum rt (hospitals_with_surplus (analyze_hospitals hs))
     = (\<Sum>h\<leftarrow>hs. surplus_of h rt)"
proof -
  have fresh: "\<forall>p\<in>set (resource_pairs hs). \<not> has_key [] (hospital_id (fst p)) (snd p)"
    by (simp add: has_key_empty)
  have "table_sum rt (hospitals_with_surplus (analyze_hospitals hs))
      = (\<Sum>p\<leftarrow>resource_pairs hs. if snd p = rt then max 0 (surplus_amount p) else 0)"
    using table_sum_fold[OF distinct_pairs[OF assms] fresh, of rt surplus_amount]
    by (simp add: analyzed_state fold_surplus table_sum_def)
  also have "\<dots> = (\<Sum>p\<leftarrow>resource_pairs hs. if snd p = rt
                        then max 0 (surplus_amount (fst p, rt)) else 0)"
    by (rule arg_cong[where f = sum_list], rule map_cong) auto
  also have "\<dots> = (\<Sum>h\<leftarrow>hs. if listed h rt then max 0 (surplus_amount (h, rt)) else 0)"
    using sum_pairs[OF assms(2), of rt "\<lambda>h. max 0 (surplus_amount (h, rt))"] .
  finally show ?thesis by (simp only: surplus_of_if)
qed

lemma analyzed_shortage_sum:
  assumes "distinct (map hospital_id hs)"
    and "\<forall>h\<in>set hs. distinct (map fst (required_resources h))"
  shows "table_sum rt (hospitals_with_shortage (analyze_hospitals hs))
     = (\<Sum>h\<leftarrow>hs. shortage_of h rt)"
proof -
  have fresh: "\<forall>p\<in>set (resource_pairs hs). \<not> has_key [] (hospital_id (fst p)) (snd p)"
    by (simp add: has_key_empty)
  have "table_sum rt (hospitals_with_shortage (analyze_hospitals hs))
      = (\<Sum>p\<leftarrow>resource_pairs hs. if snd p = rt then max 0 (shortage_amount p) else 0)"
    using table_sum_fold[OF distinct_pairs[OF assms] fresh, of rt shortage_amount]
    by (simp add: analyzed_state fold_shortage table_sum_def)
  also have "\<dots> = (\<Sum>p\<leftarrow>resource_pairs hs. if snd p = rt
                        then max 0 (shortage_amount (fst p, rt)) else 0)"
    by (rule arg_cong[where f = sum_list], rule map_cong) auto
  also have "\<dots> = (\<Sum>h\<leftarrow>hs. if listed h rt then max 0 (shortage_amount (h, rt)) else 0)"
    using sum_pairs[OF assms(2), of rt "\<lambda>h. max 0 (shortage_amount (h, rt))"] .
  finally show ?thesis by (simp only: shortage_of_if)
qed

lemma pairs_with_amount:
  "(\<exists>h_id. \<exists>p\<in>set (resource_pairs hs). pair_key p = (h_id, rt) \<and> 0 < amount p)
     \<longleftrightarrow> (\<exists>h\<in>set hs. listed h rt \<and> 0 < amount (h, rt))"
proof
  assume "\<exists>h_id. \<exists>p\<in>set (resource_pairs hs). pair_key p = (h_id, rt) \<and> 0 < amount p"
  then obtain p where p: "p \<in> set (resource_pairs hs)" "snd p = rt" "0 < amount p"
    by (auto simp add: pair_key_def)
  then have "fst p \<in> set hs \<and> listed (fst p) rt \<and> 0 < amount (fst p, rt)"
    using amount_at[of p rt amount] by (auto simp add: pairs_member)
  then show "\<exists>h\<in>set hs. listed h rt \<and> 0 < amount (h, rt)" by blast
next
  assume "\<exists>h\<in>set hs. listed h rt \<and> 0 < amount (h, rt)"
  then obtain h where h: "h \<in> set hs" "listed h rt" "0 < amount (h, rt)" by blast
  then have "(h, rt) \<in> set (resource_pairs hs)" by (simp add: pairs_member)
  moreover have "pair_key (h, rt) = (hospital_id h, rt)" by (simp add: pair_key_def)
  ultimately show "\<exists>h_id. \<exists>p\<in>set (resource_pairs hs). pair_key p = (h_id, rt) \<and> 0 < amount p"
    using h(3) by blast
qed

lemma analyzed_surplus_holders:
  "holders rt (hospitals_with_surplus (analyze_hospitals hs)) \<noteq> []
     \<longleftrightarrow> (\<exists>h\<in>set hs. 0 < surplus_of h rt)"
proof -
  have d: "distinct (map fst (hospitals_with_surplus (analyze_hospitals hs)))"
    by (simp add: analyzed_state fold_surplus distinct_fold)
  have k: "has_key (hospitals_with_surplus (analyze_hospitals hs)) h_id rt
      \<longleftrightarrow> (\<exists>p\<in>set (resource_pairs hs). pair_key p = (h_id, rt) \<and> 0 < surplus_amount p)" for h_id
    using has_key_fold[of surplus_amount "[]" "resource_pairs hs" h_id rt] has_key_empty[of h_id rt]
    by (simp add: analyzed_state fold_surplus)
  have "holders rt (hospitals_with_surplus (analyze_hospitals hs)) \<noteq> []
      \<longleftrightarrow> (\<exists>h_id. \<exists>p\<in>set (resource_pairs hs). pair_key p = (h_id, rt) \<and> 0 < surplus_amount p)"
    using holders_nonempty[OF d, of rt] k by simp
  then show ?thesis by (simp only: pairs_with_amount surplus_positive_iff)
qed

lemma analyzed_shortage_holders:
  "holders rt (hospitals_with_shortage (analyze_hospitals hs)) \<noteq> []
     \<longleftrightarrow> (\<exists>h\<in>set hs. 0 < shortage_of h rt)"
proof -
  have d: "distinct (map fst (hospitals_with_shortage (analyze_hospitals hs)))"
    by (simp add: analyzed_state fold_shortage distinct_fold)
  have k: "has_key (hospitals_with_shortage (analyze_hospitals hs)) h_id rt
      \<longleftrightarrow> (\<exists>p\<in>set (resource_pairs hs). pair_key p = (h_id, rt) \<and> 0 < shortage_amount p)" for h_id
    using has_key_fold[of shortage_amount "[]" "resource_pairs hs" h_id rt] has_key_empty[of h_id rt]
    by (simp add: analyzed_state fold_shortage)
  have "holders rt (hospitals_with_shortage (analyze_hospitals hs)) \<noteq> []
      \<longleftrightarrow> (\<exists>h_id. \<exists>p\<in>set (resource_pairs hs). pair_key p = (h_id, rt) \<and> 0 < shortage_amount p)"
    using holders_nonempty[OF d, of rt] k by simp
  then show ?thesis by (simp only: pairs_with_amount shortage_positive_iff)
qed

lemma generate_returns:
  "\<exists>np. network_loop (map fst (total_requirements (analyze_hospitals hs)))
            (total_requirements (analyze_hospitals hs))
            (total_available (analyze_hospitals hs)) [] = Inr np
     \<and> (\<forall>rt. dict_get (map_of np) rt 0 =
           max 0 (dict_get (map_of (total_requirements (analyze_hospitals hs))) rt 0
                  - dict_get (map_of (total_available (analyze_hospitals hs))) rt 0))"
proof -
  let ?s = "analyze_hospitals hs"
  let ?ks = "map fst (total_requirements ?s)"
  have keys: "\<forall>k\<in>set ?ks. k \<in> fst ` set (total_requirements ?s) \<and> k \<in> fst ` set (total_available ?s)"
    by (simp add: analyzed_keys)
  obtain np where np: "network_loop ?ks (total_requirements ?s) (total_available ?s) [] = Inr np"
    and val: "\<forall>rt. dict_get (map_of np) rt 0 =
           (if rt \<in> set ?ks \<and> 0 < dict_get (map_of (total_requirements ?s)) rt 0
                                   - dict_get (map_of (total_available ?s)) rt 0
            then dict_get (map_of (total_requirements ?s)) rt 0
                   - dict_get (map_of (total_available ?s)) rt 0
            else dict_get (map_of []) rt 0)"
    using network_loop_result[OF keys, of "[]"] by blast
  have "\<forall>rt. dict_get (map_of np) rt 0 =
           max 0 (dict_get (map_of (total_requirements ?s)) rt 0
                  - dict_get (map_of (total_available ?s)) rt 0)"
  proof
    fix rt
    show "dict_get (map_of np) rt 0 =
           max 0 (dict_get (map_of (total_requirements ?s)) rt 0
                  - dict_get (map_of (total_available ?s)) rt 0)"
    proof (cases "rt \<in> set ?ks")
      case True
      then show ?thesis using val[rule_format, of rt] dict_get_empty[of rt] by auto
    next
      case False
      then have a: "rt \<notin> fst ` set (total_requirements ?s)" by simp
      then have b: "rt \<notin> fst ` set (total_available ?s)" by (simp add: analyzed_keys)
      have "dict_get (map_of (total_requirements ?s)) rt 0 = 0"
        using dict_get_absent[OF a] by simp
      moreover have "dict_get (map_of (total_available ?s)) rt 0 = 0"
        using dict_get_absent[OF b] by simp
      ultimately show ?thesis using val[rule_format, of rt] dict_get_empty[of rt] False by simp
    qed
  qed
  then show ?thesis using np by blast
qed

text \<open>
  C4, as amended. For hospitals with pairwise distinct ids (and required resources that
  are a dictionary, so with distinct keys), where a hospital counts for a resource type
  only if its required resources list the type: the function returns; a pooling
  opportunity is emitted for a resource type exactly when some hospital has a surplus and
  some hospital has a shortage of it; its \<open>can_transfer\<close> is the smaller of the sum of all
  surpluses and the sum of all shortages; and the network procurement need of every type
  (0 when the type is absent from \<open>network_procurement_needed\<close>) is
  \<open>max(0, total_required - total_available)\<close>. The function only reads its input.
\<close>

theorem pooling_and_network_procurement:
  assumes "distinct (map hospital_id hs)"
    and "\<forall>h\<in>set hs. distinct (map fst (required_resources h))"
  shows "\<exists>res. generate_multi_hospital_recommendations hs = Inr res
     \<and> (\<forall>rt. (\<exists>p\<in>set (pooling_opportunities res). r_resource p = rt)
             \<longleftrightarrow> (\<exists>h\<in>set hs. 0 < surplus_of h rt) \<and> (\<exists>h\<in>set hs. 0 < shortage_of h rt))
     \<and> (\<forall>p\<in>set (pooling_opportunities res).
           r_can_transfer p = min (\<Sum>h\<leftarrow>hs. surplus_of h (r_resource p))
                                  (\<Sum>h\<leftarrow>hs. shortage_of h (r_resource p)))
     \<and> (\<forall>rt. dict_get (map_of (network_procurement_needed res)) rt 0
             = max 0 ((\<Sum>h\<leftarrow>hs. required_of h rt) - (\<Sum>h\<leftarrow>hs. available_of h rt)))"
proof -
  let ?s = "analyze_hospitals hs"
  let ?ks = "map fst (total_requirements ?s)"
  let ?pool = "concat (map (pooling_recommendation_for ?s) ?ks)"
  obtain np where np: "network_loop ?ks (total_requirements ?s) (total_available ?s) [] = Inr np"
    and val: "\<forall>rt. dict_get (map_of np) rt 0 =
           max 0 (dict_get (map_of (total_requirements ?s)) rt 0
                  - dict_get (map_of (total_available ?s)) rt 0)"
    using generate_returns[of hs] by blast
  let ?res = "\<lparr>total_requirements = total_requirements ?s,
        total_available = total_available ?s,
        hospitals_with_surplus = hospitals_with_surplus ?s,
        hospitals_with_shortage = hospitals_with_shortage ?s,
        network_procurement_needed = np,
        pooling_opportunities = ?pool\<rparr>"
  have res: "generate_multi_hospital_recommendations hs = Inr ?res"
    by (simp add: generate_multi_hospital_recommendations_def Let_def np)
  have iff: "(\<exists>p\<in>set ?pool. r_resource p = rt)
      \<longleftrightarrow> (\<exists>h\<in>set hs. 0 < surplus_of h rt) \<and> (\<exists>h\<in>set hs. 0 < shortage_of h rt)" for rt
  proof -
    have inks: "(\<exists>h\<in>set hs. 0 < surplus_of h rt) \<Longrightarrow> rt \<in> set ?ks"
    proof -
      assume "\<exists>h\<in>set hs. 0 < surplus_of h rt"
      then obtain h where "h \<in> set hs" "listed h rt" by (auto simp add: surplus_positive_iff)
      then have "(h, rt) \<in> set (resource_pairs hs)" by (simp add: pairs_member)
      then have "rt \<in> snd ` set (resource_pairs hs)" by force
      then show "rt \<in> set ?ks" by (simp add: analyzed_keys)
    qed
    have e: "(\<exists>p\<in>set ?pool. r_resource p = rt)
        \<longleftrightarrow> rt \<in> set ?ks \<and> pooling_recommendation_for ?s rt \<noteq> []"
      by (rule pooling_exists_iff)
    have n: "pooling_recommendation_for ?s rt \<noteq> []
        \<longleftrightarrow> (\<exists>h\<in>set hs. 0 < surplus_of h rt) \<and> (\<exists>h\<in>set hs. 0 < shortage_of h rt)"
      by (simp only: pooling_for_nonempty analyzed_surplus_holders analyzed_shortage_holders)
    show ?thesis using e n inks by blast
  qed
  have transfer: "r_can_transfer p = min (\<Sum>h\<leftarrow>hs. surplus_of h (r_resource p))
                                  (\<Sum>h\<leftarrow>hs. shortage_of h (r_resource p))"
    if "p \<in> set ?pool" for p
  proof -
    have "\<exists>k. p \<in> set (pooling_recommendation_for ?s k)" using that by auto
    then obtain k where "p \<in> set (pooling_recommendation_for ?s k)" by blast
    then have "r_resource p = k"
      and "r_can_transfer p = min (table_sum k (hospitals_with_surplus ?s))
                                 (table_sum k (hospitals_with_shortage ?s))"
      using pooling_for_elem by blast+
    then show ?thesis
      by (simp add: analyzed_surplus_sum[OF assms] analyzed_shortage_sum[OF assms])
  qed
  have need: "dict_get (map_of np) rt 0
      = max 0 ((\<Sum>h\<leftarrow>hs. required_of h rt) - (\<Sum>h\<leftarrow>hs. available_of h rt))" for rt
    using val[rule_format, of rt]
    by (simp only: analyzed_total_requirements[OF assms(2)] analyzed_total_available[OF assms(2)])
  have "(\<forall>rt. (\<exists>p\<in>set (pooling_opportunities ?res). r_resource p = rt)
             \<longleftrightarrow> (\<exists>h\<in>set hs. 0 < surplus_of h rt) \<and> (\<exists>h\<in>set hs. 0 < shortage_of h rt))
     \<and> (\<forall>p\<in>set (pooling_opportunities ?res).
           r_can_transfer p = min (\<Sum>h\<leftarrow>hs. surplus_of h (r_resource p))
                                  (\<Sum>h\<leftarrow>hs. shortage_of h (r_resource p)))
     \<and> (\<forall>rt. dict_get (map_of (network_procurement_needed ?res)) rt 0
             = max 0 ((\<Sum>h\<leftarrow>hs. required_of h rt) - (\<Sum>h\<leftarrow>hs. available_of h rt)))"
    using iff transfer need by simp
  then show ?thesis using res by blast
qed

text \<open>
  Scenario 4: hospital A is 500 PPE kits short, hospital B has 800 to spare. There is a
  pooling opportunity that transfers 500, and nothing is left to procure.
\<close>

theorem pooling_and_network_procurement_witness:
  "\<exists>res. generate_multi_hospital_recommendations scenario4 = Inr res
     \<and> (\<exists>p\<in>set (pooling_opportunities res). r_resource p = ''ppe_kits'' \<and> r_can_transfer p = 500)
     \<and> dict_get (map_of (network_procurement_needed res)) ''ppe_kits'' 0 = 0"
proof -
  have d1: "distinct (map hospital_id scenario4)" by (simp add: scenario4_def)
  have d2: "\<forall>h\<in>set scenario4. distinct (map fst (required_resources h))"
    by (simp add: scenario4_def)
  have su: "(\<Sum>h\<leftarrow>scenario4. surplus_of h ''ppe_kits'') = 800"
    by (simp add: scenario4_def surplus_of_def available_of_def required_of_def listed_def
        dict_get_def)
  have sh: "(\<Sum>h\<leftarrow>scenario4. shortage_of h ''ppe_kits'') = 500"
    by (simp add: scenario4_def shortage_of_def available_of_def required_of_def listed_def
        dict_get_def)
  have rq: "(\<Sum>h\<leftarrow>scenario4. required_of h ''ppe_kits'') = 1000"
    by (simp add: scenario4_def required_of_def dict_get_def)
  have av: "(\<Sum>h\<leftarrow>scenario4. available_of h ''ppe_kits'') = 1300"
    by (simp add: scenario4_def available_of_def listed_def dict_get_def)
  have s1: "\<exists>h\<in>set scenario4. 0 < surplus_of h ''ppe_kits''"
    by (simp add: scenario4_def surplus_of_def available_of_def required_of_def listed_def
        dict_get_def)
  have s2: "\<exists>h\<in>set scenario4. 0 < shortage_of h ''ppe_kits''"
    by (simp add: scenario4_def shortage_of_def available_of_def required_of_def listed_def
        dict_get_def)
  obtain res where res: "generate_multi_hospital_recommendations scenario4 = Inr res"
    and iff: "\<forall>rt. (\<exists>p\<in>set (pooling_opportunities res). r_resource p = rt)
             \<longleftrightarrow> (\<exists>h\<in>set scenario4. 0 < surplus_of h rt) \<and> (\<exists>h\<in>set scenario4. 0 < shortage_of h rt)"
    and tr: "\<forall>p\<in>set (pooling_opportunities res).
           r_can_transfer p = min (\<Sum>h\<leftarrow>scenario4. surplus_of h (r_resource p))
                                  (\<Sum>h\<leftarrow>scenario4. shortage_of h (r_resource p))"
    and need: "\<forall>rt. dict_get (map_of (network_procurement_needed res)) rt 0
             = max 0 ((\<Sum>h\<leftarrow>scenario4. required_of h rt) - (\<Sum>h\<leftarrow>scenario4. available_of h rt))"
    using pooling_and_network_procurement[OF d1 d2] by blast
  obtain p where p: "p \<in> set (pooling_opportunities res)" "r_resource p = ''ppe_kits''"
    using iff s1 s2 by blast
  have "r_can_transfer p = 500" using tr p su sh by simp
  moreover have "dict_get (map_of (network_procurement_needed res)) ''ppe_kits'' 0 = 0"
    using need rq av by simp
  ultimately show ?thesis using res p by blast
qed

text \<open>
  C4 as stated counts surplus, shortage and the totals across all facilities. Hospital B
  holds 100 PPE kits and requires none (the type is missing from its required resources),
  hospital A requires 10 and holds none. Across all facilities B has a surplus, A a
  shortage, and the total available (100) exceeds the total required (10); the function
  visits only the types a hospital lists, reports no pooling opportunity and a network
  procurement need of 10.
\<close>

theorem unlisted_stock_is_ignored_counterexample:
  "generate_multi_hospital_recommendations unlisted_stock
   = Inr \<lparr>total_requirements = [(''ppe_kits'', 10)],
          total_available = [(''ppe_kits'', 0)],
          hospitals_with_surplus = [],
          hospitals_with_shortage = [(''A'', [(''ppe_kits'', 10)])],
          network_procurement_needed = [(''ppe_kits'', 10)],
          pooling_opportunities = []\<rparr>
   \<and> dict_get (available_resources (unlisted_stock ! 1)) ''ppe_kits'' 0 = 100
   \<and> dict_get (map_of (required_resources (unlisted_stock ! 1))) ''ppe_kits'' 0 = 0
   \<and> dict_get (available_resources (unlisted_stock ! 0)) ''ppe_kits'' 0 = 0
   \<and> dict_get (map_of (required_resources (unlisted_stock ! 0))) ''ppe_kits'' 0 = 10"
  by (simp add: unlisted_stock_def generate_multi_hospital_recommendations_def
      analyze_hospitals_def analyze_hospital_def analyze_resource_def record_amount_def
      pooling_recommendation_for_def holders_def dict_get_def Let_def)

end
